theory Spec2Isabelle
  imports Complex_Main
begin

section \<open>JavaScript values\<close>

text \<open>
  The fields of a parsed JSON body, and the values the handlers compute from them.
  \<open>JUndefined\<close> is what destructuring gives for a field the body does not have;
  \<open>JNaN\<close> is the result of a failed \<open>parseInt\<close>. A number is an exact rational
  (the rounding of IEEE doubles is not modelled; no handler modelled here does
  arithmetic on a body field). \<open>JObj\<close> is an object or an array, carrying the text
  the database driver sends for it.
\<close>

datatype jsval = JUndefined | JNull | JNaN | JBool bool | JNum rat | JStr string | JObj string

text \<open>Truthiness, as \<open>!x\<close>, \<open>x ? a : b\<close> and \<open>if (x)\<close> test it.\<close>

fun js_truthy :: "jsval \<Rightarrow> bool" where
  "js_truthy JUndefined = False"
| "js_truthy JNull = False"
| "js_truthy JNaN = False"
| "js_truthy (JBool b) = b"
| "js_truthy (JNum q) = (q \<noteq> 0)"
| "js_truthy (JStr s) = (s \<noteq> [])"
| "js_truthy (JObj s) = True"

text \<open>\<open>s.split(c)\<close> for a one-character separator: empty pieces are kept.\<close>

fun js_split :: "char \<Rightarrow> string \<Rightarrow> string list" where
  "js_split c [] = [[]]"
| "js_split c (x # xs) =
     (if x = c then [] # js_split c xs
      else (case js_split c xs of [] \<Rightarrow> [[x]] | w # ws \<Rightarrow> (x # w) # ws))"

text \<open>\<open>xs[i]\<close>: \<open>undefined\<close> (here \<open>None\<close>) out of range.\<close>

fun js_index :: "'a list \<Rightarrow> nat \<Rightarrow> 'a option" where
  "js_index [] i = None"
| "js_index (x # xs) 0 = Some x"
| "js_index (x # xs) (Suc i) = js_index xs i"

section \<open>The primary store (PostgreSQL)\<close>

record usuario =
  nombre :: string
  email :: string
  password :: string
  puntos :: "int option"
  co2_evitado :: "rat option"

record intento =
  usuario_id :: int
  residuo_id :: "int option"
  acierto :: "bool option"
  fecha :: nat

record store =
  usuarios :: "int \<rightharpoonup> usuario"
  residuos :: "int set"
  historial :: "intento list"

datatype pg_error = Invalid_input | Constraint_violation | Foreign_key_violation | Connection_failure

datatype thrown = Pg pg_error | Mongo_failure | Type_error

section \<open>The secondary store (MongoDB) and the responses\<close>

record log_partida =
  log_usuario_id :: jsval
  log_residuo_id :: jsval
  es_correcto :: jsval
  puntos_obtenidos :: int

text \<open>
  The literal objects the handlers answer with: \<open>{success: true}\<close>,
  \<open>{error: m}\<close>, \<open>{success: false, error: m}\<close> and the success object of
  \<open>/api/clasificacion/registrar\<close> (\<open>mensaje\<close>, then \<open>datos.puntos\<close>,
  \<open>datos.co2_evitado\<close>, \<open>datos.clasificaciones_hoy\<close>).
\<close>

datatype body =
    Body_success
  | Body_error jsval
  | Body_failure jsval
  | Body_registrada jsval jsval jsval jsval

datatype reply = Reply nat body

fun status :: "reply \<Rightarrow> nat" where
  "status (Reply n b) = n"

fun content :: "reply \<Rightarrow> body" where
  "content (Reply n b) = b"

record sp_row =
  exito :: jsval
  mensaje :: jsval
  nuevos_puntos :: jsval
  nuevo_co2 :: jsval
  clasificaciones_hoy :: jsval

section \<open>The environment of the server\<close>

text \<open>
  Everything the handlers call that is not code of the repository: the text readers of
  PostgreSQL for the three column types (\<open>None\<close>: invalid input syntax), the
  constraints the tables declare on a row besides the foreign keys (NOT NULL, CHECK),
  whether a statement fails for a reason of its own (connection lost, timeout), the
  stored procedure, \<open>jwt.verify\<close> with the server's secret (\<open>None\<close>: it throws),
  \<open>parseInt\<close>, what \<open>save()\<close> of a \<open>LogPartida\<close> document stores (\<open>None\<close>: the
  promise rejects), and the clock.
\<close>

record env =
  int4in :: "string \<Rightarrow> int option"
  float_in :: "string \<Rightarrow> rat option"
  boolin :: "string \<Rightarrow> bool option"
  historial_check :: "int option \<Rightarrow> bool option \<Rightarrow> bool"
  usuarios_check :: "int option \<Rightarrow> rat option \<Rightarrow> bool"
  insert_fault :: bool
  update_fault :: bool
  sp_registrar_clasificacion :: "store \<Rightarrow> jsval \<Rightarrow> jsval \<Rightarrow> jsval \<Rightarrow> pg_error + sp_row list \<times> store"
  jwt_verify :: "string \<Rightarrow> int option"
  parseInt :: "jsval \<Rightarrow> jsval"
  mongoose_save :: "log_partida \<Rightarrow> log_partida option"
  now :: nat

section \<open>Query parameters\<close>

text \<open>
  The text the driver sends for a parameter that is neither \<open>null\<close> nor a number
  (it is not asked for those).
\<close>

fun pg_text :: "jsval \<Rightarrow> string" where
  "pg_text (JBool b) = (if b then ''true'' else ''false'')"
| "pg_text (JStr s) = s"
| "pg_text (JObj s) = s"
| "pg_text JNaN = ''NaN''"
| "pg_text v = []"

text \<open>
  A parameter read at an integer, a real and a boolean column. \<open>undefined\<close> and
  \<open>null\<close> are sent as NULL (\<open>Inr None\<close>). A number is sent as its decimal text: an
  integer column takes it when it is integral and in the range of 32 bits, a boolean
  column when it is 1 or 0.
\<close>

definition read_opt :: "'a option \<Rightarrow> pg_error + 'a option" where
  "read_opt r = (case r of None \<Rightarrow> Inl Invalid_input | Some x \<Rightarrow> Inr (Some x))"

fun pg_int4 :: "env \<Rightarrow> jsval \<Rightarrow> pg_error + int option" where
  "pg_int4 e JUndefined = Inr None"
| "pg_int4 e JNull = Inr None"
| "pg_int4 e (JNum q) =
     (if of_int \<lfloor>q\<rfloor> = q \<and> - 2147483648 \<le> \<lfloor>q\<rfloor> \<and> \<lfloor>q\<rfloor> \<le> 2147483647
      then Inr (Some \<lfloor>q\<rfloor>) else Inl Invalid_input)"
| "pg_int4 e v = read_opt (int4in e (pg_text v))"

fun pg_float :: "env \<Rightarrow> jsval \<Rightarrow> pg_error + rat option" where
  "pg_float e JUndefined = Inr None"
| "pg_float e JNull = Inr None"
| "pg_float e (JNum q) = Inr (Some q)"
| "pg_float e v = read_opt (float_in e (pg_text v))"

fun pg_bool :: "env \<Rightarrow> jsval \<Rightarrow> pg_error + bool option" where
  "pg_bool e JUndefined = Inr None"
| "pg_bool e JNull = Inr None"
| "pg_bool e (JBool b) = Inr (Some b)"
| "pg_bool e (JNum q) =
     (if q = 1 then Inr (Some True) else if q = 0 then Inr (Some False) else Inl Invalid_input)"
| "pg_bool e v = read_opt (boolin e (pg_text v))"

section \<open>The two statements of the progress route\<close>

text \<open>
  Modelled from the spec: the declarations of the tables \<open>usuarios\<close> and \<open>historial\<close>,
  which are not in the repository's sources. \<open>usuarios\<close> has an integer \<open>puntos\<close> and
  a real \<open>co2_evitado\<close>; \<open>historial\<close> records an attempt with a foreign key to the
  user and to the catalogue item, a boolean flag and a timestamp. A foreign key is not
  checked on NULL.

  \<open>INSERT INTO historial (usuario_id, residuo_id, acierto, fecha) VALUES ($1,$2,$3,NOW())\<close>
  with \<open>[id, residuo_id, fue_acierto]\<close>. \<open>pool.query\<close> runs it on a connection of
  its own, outside any transaction block: its effect is committed when it returns.
\<close>

definition insert_historial :: "env \<Rightarrow> store \<Rightarrow> string \<Rightarrow> jsval \<Rightarrow> jsval \<Rightarrow> pg_error + store" where
  "insert_historial e st ident rid ac =
     (if insert_fault e then Inl Connection_failure
      else (case int4in e ident of
        None \<Rightarrow> Inl Invalid_input
      | Some u \<Rightarrow>
        (case pg_int4 e rid of
          Inl x \<Rightarrow> Inl x
        | Inr r \<Rightarrow>
          (case pg_bool e ac of
            Inl x \<Rightarrow> Inl x
          | Inr a \<Rightarrow>
              if \<not> historial_check e r a then Inl Constraint_violation
              else if usuarios st u = None then Inl Foreign_key_violation
              else if (case r of None \<Rightarrow> False | Some i \<Rightarrow> i \<notin> residuos st)
                then Inl Foreign_key_violation
              else Inr (st\<lparr>historial := historial st @
                     [\<lparr>usuario_id = u, residuo_id = r, acierto = a, fecha = now e\<rparr>]\<rparr>)))))"

text \<open>
  \<open>UPDATE usuarios SET puntos = $1, co2_evitado = $2 WHERE id = $3\<close> with
  \<open>[puntos, co2_evitado, id]\<close>: the two columns are set to the parameters. With no
  row of that id the statement succeeds and changes nothing.
\<close>

definition update_usuarios :: "env \<Rightarrow> store \<Rightarrow> jsval \<Rightarrow> jsval \<Rightarrow> string \<Rightarrow> pg_error + store" where
  "update_usuarios e st p c ident =
     (if update_fault e then Inl Connection_failure
      else (case pg_int4 e p of
        Inl x \<Rightarrow> Inl x
      | Inr p' \<Rightarrow>
        (case pg_float e c of
          Inl x \<Rightarrow> Inl x
        | Inr c' \<Rightarrow>
          (case int4in e ident of
            None \<Rightarrow> Inl Invalid_input
          | Some u \<Rightarrow>
            (case usuarios st u of
              None \<Rightarrow> Inr st
            | Some row \<Rightarrow>
                if \<not> usuarios_check e p' c' then Inl Constraint_violation
                else Inr (st\<lparr>usuarios := (usuarios st)(u \<mapsto> row\<lparr>puntos := p', co2_evitado := c'\<rparr>)\<rparr>))))))"

section \<open>Requests, the world and what a handler leaves behind\<close>

text \<open>
  The three copies of the server in the repository: \<open>server/index.js\<close>,
  \<open>unnamed/part_002\<close> and \<open>unnamed/part_003\<close>. Only the last puts
  \<open>verificarToken\<close> before the route.
\<close>

datatype version = Server_index | Part_002 | Part_003

record request =
  authorization :: "string option"
  params_id :: string
  usuario :: "int option"
  body_puntos :: jsval
  body_co2_evitado :: jsval
  body_residuo_id :: jsval
  body_fue_acierto :: jsval
  body_usuario_id :: jsval

record world =
  pg :: store
  mongo :: "log_partida list"
  console :: "(string \<times> thrown) list"

datatype stmt = Insert_historial | Update_usuarios | Select_sp

text \<open>
  What a request does, in the order it does it: each statement awaited and how it ended,
  the \<open>save()\<close> of the mirror document (not awaited), the response, and then how the
  promise of the \<open>save()\<close> settled.
\<close>

datatype event =
    Sql_ok stmt
  | Sql_failed stmt pg_error
  | Mirror_sent log_partida
  | Responded reply
  | Mirror_saved
  | Mirror_dropped

record outcome =
  response :: reply
  after :: world
  trace :: "event list"

section \<open>The middleware \<open>verificarToken\<close>\<close>

definition token_invalido :: string where
  "token_invalido = ''Token inv'' @ [CHR 0xC3, CHR 0xA1] @ ''lido''"

text \<open>
  \<open>Inl\<close>: the middleware answered and the route is not called; \<open>Inr\<close>: \<open>next()\<close>, with
  the decoded token in \<open>req.usuario\<close>. \<open>jwt.verify\<close> throws on an \<open>undefined\<close> token.
\<close>

definition verificarToken :: "env \<Rightarrow> request \<Rightarrow> reply + request" where
  "verificarToken e req =
     (case authorization req of
        None \<Rightarrow> Inl (Reply 401 (Body_error (JStr ''Token requerido'')))
      | Some authHeader \<Rightarrow>
          if authHeader = [] then Inl (Reply 401 (Body_error (JStr ''Token requerido'')))
          else (case js_index (js_split CHR '' '' authHeader) 1 of
            None \<Rightarrow> Inl (Reply 403 (Body_error (JStr token_invalido)))
          | Some token \<Rightarrow>
            (case jwt_verify e token of
              None \<Rightarrow> Inl (Reply 403 (Body_error (JStr token_invalido)))
            | Some decoded \<Rightarrow> Inr (req\<lparr>usuario := Some decoded\<rparr>))))"

section \<open>\<open>PUT /api/usuarios/:id/progreso\<close>\<close>

text \<open>
  The mirror document. \<open>save()\<close> is not awaited, and its rejection is caught by a
  handler that writes to the console and returns.
\<close>

definition progreso_doc :: "version \<Rightarrow> env \<Rightarrow> request \<Rightarrow> log_partida" where
  "progreso_doc v e req =
     \<lparr>log_usuario_id =
        (case v of Part_002 \<Rightarrow> parseInt e (JStr (params_id req)) | _ \<Rightarrow> JStr (params_id req)),
      log_residuo_id = body_residuo_id req,
      es_correcto = body_fue_acierto req,
      puntos_obtenidos = (if js_truthy (body_fue_acierto req) then 10 else 0)\<rparr>"

definition mirror_label :: "version \<Rightarrow> string" where
  "mirror_label v =
     (case v of
        Server_index \<Rightarrow> ''Error guardando log en Mongo:''
      | Part_002 \<Rightarrow> ''Error guardando log en MongoDB:''
      | Part_003 \<Rightarrow> [])"

definition settle_mirror :: "env \<Rightarrow> string \<Rightarrow> log_partida \<Rightarrow> world \<Rightarrow> world" where
  "settle_mirror e label doc w =
     (case mongoose_save e doc of
        None \<Rightarrow> w\<lparr>console := console w @ [(label, Mongo_failure)]\<rparr>
      | Some stored \<Rightarrow> w\<lparr>mongo := mongo w @ [stored]\<rparr>)"

definition mirror_event :: "env \<Rightarrow> log_partida \<Rightarrow> event" where
  "mirror_event e doc = (case mongoose_save e doc of None \<Rightarrow> Mirror_dropped | Some stored \<Rightarrow> Mirror_saved)"

text \<open>
  The \<open>catch\<close> block of the route, reached from either statement: the body of its
  500 response in each copy, and what it writes to the console.
\<close>

definition error_al_guardar :: "version \<Rightarrow> body" where
  "error_al_guardar v =
     (case v of
        Part_002 \<Rightarrow> Body_failure (JStr ''Error al guardar progreso'')
      | _ \<Rightarrow> Body_error (JStr ''Error al guardar progreso''))"

definition progreso_catch :: "version \<Rightarrow> thrown \<Rightarrow> world \<Rightarrow> event list \<Rightarrow> outcome" where
  "progreso_catch v err w evs =
     (let r = Reply 500 (error_al_guardar v)
      in \<lparr>response = r,
          after = w\<lparr>console := console w @
            (case v of
               Server_index \<Rightarrow> [([], err)]
             | Part_002 \<Rightarrow> [(''Error al guardar progreso:'', err)]
             | Part_003 \<Rightarrow> [])\<rparr>,
          trace = evs @ [Responded r]\<rparr>)"

definition progreso :: "version \<Rightarrow> env \<Rightarrow> request \<Rightarrow> world \<Rightarrow> outcome" where
  "progreso v e req w =
     (case insert_historial e (pg w) (params_id req) (body_residuo_id req) (body_fue_acierto req) of
        Inl x \<Rightarrow> progreso_catch v (Pg x) w [Sql_failed Insert_historial x]
      | Inr s1 \<Rightarrow>
        (case update_usuarios e s1 (body_puntos req) (body_co2_evitado req) (params_id req) of
          Inl x \<Rightarrow>
            progreso_catch v (Pg x) (w\<lparr>pg := s1\<rparr>)
              [Sql_ok Insert_historial, Sql_failed Update_usuarios x]
        | Inr s2 \<Rightarrow>
            (let doc = progreso_doc v e req
             in \<lparr>response = Reply 200 Body_success,
                 after = settle_mirror e (mirror_label v) doc (w\<lparr>pg := s2\<rparr>),
                 trace = [Sql_ok Insert_historial, Sql_ok Update_usuarios, Mirror_sent doc,
                          Responded (Reply 200 Body_success), mirror_event e doc]\<rparr>)))"

text \<open>The route as registered: with the middleware in the last copy only.\<close>

definition put_progreso :: "version \<Rightarrow> env \<Rightarrow> request \<Rightarrow> world \<Rightarrow> outcome" where
  "put_progreso v e req w =
     (case v of
        Part_003 \<Rightarrow>
          (case verificarToken e req of
             Inl r \<Rightarrow> \<lparr>response = r, after = w, trace = [Responded r]\<rparr>
           | Inr req' \<Rightarrow> progreso v e req' w)
      | _ \<Rightarrow> progreso v e req w)"

section \<open>\<open>POST /api/clasificacion/registrar\<close>\<close>

definition faltan_parametros :: string where
  "faltan_parametros =
     ''Faltan par'' @ [CHR 0xC3, CHR 0xA1] @ ''metros: usuario_id, residuo_id, fue_acierto''"

definition error_clasificacion :: string where
  "error_clasificacion = ''Error al registrar clasificaci'' @ [CHR 0xC3, CHR 0xB3] @ ''n''"

definition registrar_doc :: "env \<Rightarrow> request \<Rightarrow> log_partida" where
  "registrar_doc e req =
     \<lparr>log_usuario_id = parseInt e (body_usuario_id req),
      log_residuo_id = body_residuo_id req,
      es_correcto = body_fue_acierto req,
      puntos_obtenidos = (if js_truthy (body_fue_acierto req) then 10 else 0)\<rparr>"

definition registrar_catch :: "thrown \<Rightarrow> world \<Rightarrow> event list \<Rightarrow> outcome" where
  "registrar_catch err w evs =
     (let r = Reply 500 (Body_failure (JStr error_clasificacion))
      in \<lparr>response = r,
          after = w\<lparr>console := console w @ [(error_clasificacion @ '':'', err)]\<rparr>,
          trace = evs @ [Responded r]\<rparr>)"

text \<open>
  The \<open>try\<close> block: the stored procedure is called in one statement;
  \<open>result.rows[0]\<close> of no row is \<open>undefined\<close>, and reading \<open>exito\<close> of it throws.
\<close>

definition registrar_try :: "env \<Rightarrow> request \<Rightarrow> world \<Rightarrow> outcome" where
  "registrar_try e req w =
     (case sp_registrar_clasificacion e (pg w)
             (body_usuario_id req) (body_residuo_id req) (body_fue_acierto req) of
        Inl x \<Rightarrow> registrar_catch (Pg x) w [Sql_failed Select_sp x]
      | Inr (rows, s1) \<Rightarrow>
        (case js_index rows 0 of
          None \<Rightarrow> registrar_catch Type_error (w\<lparr>pg := s1\<rparr>) [Sql_ok Select_sp]
        | Some row \<Rightarrow>
            if js_truthy (exito row) then
              (let doc = registrar_doc e req;
                   r = Reply 200 (Body_registrada (mensaje row) (nuevos_puntos row)
                         (nuevo_co2 row) (clasificaciones_hoy row))
               in \<lparr>response = r,
                   after = settle_mirror e ''Error guardando log en MongoDB:'' doc (w\<lparr>pg := s1\<rparr>),
                   trace = [Sql_ok Select_sp, Mirror_sent doc, Responded r, mirror_event e doc]\<rparr>)
            else
              (let r = Reply 400 (Body_failure (mensaje row))
               in \<lparr>response = r, after = w\<lparr>pg := s1\<rparr>, trace = [Sql_ok Select_sp, Responded r]\<rparr>)))"

definition registrar :: "env \<Rightarrow> request \<Rightarrow> world \<Rightarrow> outcome" where
  "registrar e req w =
     (if \<not> js_truthy (body_usuario_id req) \<or> \<not> js_truthy (body_residuo_id req)
         \<or> body_fue_acierto req = JUndefined
      then (let r = Reply 400 (Body_failure (JStr faltan_parametros))
            in \<lparr>response = r, after = w, trace = [Responded r]\<rparr>)
      else registrar_try e req w)"

section \<open>An environment and a world for the examples\<close>

text \<open>
  A reader of plain decimal integers (an optional minus sign, then digits), which the
  environment of the examples uses for the integer column; the examples pass no other
  text to it.
\<close>

fun digits :: "string \<Rightarrow> nat \<Rightarrow> nat option" where
  "digits [] acc = Some acc"
| "digits (c # cs) acc =
     (if 48 \<le> (of_char c :: nat) \<and> (of_char c :: nat) \<le> 57
      then digits cs (10 * acc + ((of_char c :: nat) - 48)) else None)"

definition decimal :: "string \<Rightarrow> int option" where
  "decimal s =
     (case s of
        [] \<Rightarrow> None
      | c # cs \<Rightarrow>
          if c = CHR ''-'' then (if cs = [] then None else map_option (\<lambda>n. - int n) (digits cs 0))
          else map_option int (digits s 0))"

definition parseInt_ok :: "jsval \<Rightarrow> jsval" where
  "parseInt_ok v =
     (case v of
        JStr s \<Rightarrow> (case decimal s of None \<Rightarrow> JNaN | Some n \<Rightarrow> JNum (of_int n))
      | JNum q \<Rightarrow> JNum (of_int (if 0 \<le> q then \<lfloor>q\<rfloor> else \<lceil>q\<rceil>))
      | _ \<Rightarrow> JNaN)"

text \<open>
  A stand-in for the stored procedure, whose text is not in the repository's sources: it
  answers with one row and leaves the store as it is. The theorems below hold for any
  procedure; only the example of a request that passes the guard of the route runs
  this one.
\<close>

definition sp_ok :: "store \<Rightarrow> jsval \<Rightarrow> jsval \<Rightarrow> jsval \<Rightarrow> pg_error + sp_row list \<times> store" where
  "sp_ok st u r a =
     Inr ([\<lparr>exito = JBool True, mensaje = JStr ''ok'', nuevos_puntos = JNum 0,
            nuevo_co2 = JNum 0, clasificaciones_hoy = JNum 1\<rparr>], st)"

text \<open>
  No fault, no constraint besides the foreign keys, two tokens (\<open>tok1\<close> signed for
  user 1, \<open>tok7\<close> for user 7), and a secondary store that keeps what it is given.
\<close>

definition env_ok :: env where
  "env_ok =
     \<lparr>int4in = decimal,
      float_in = (\<lambda>s. map_option of_int (decimal s)),
      boolin = (\<lambda>s. if s = ''true'' then Some True else if s = ''false'' then Some False else None),
      historial_check = (\<lambda>r a. True),
      usuarios_check = (\<lambda>p c. True),
      insert_fault = False,
      update_fault = False,
      sp_registrar_clasificacion = sp_ok,
      jwt_verify = map_of [(''tok1'', 1), (''tok7'', 7)],
      parseInt = parseInt_ok,
      mongoose_save = Some,
      now = 0\<rparr>"

text \<open>User 7 with 20 points and 1.0 of CO2, user 1 with nothing yet, and item 3.\<close>

definition ana :: usuario where
  "ana = \<lparr>nombre = ''Ana'', email = ''ana@example.org'', password = ''$2b$10$'',
          puntos = Some 20, co2_evitado = Some 1\<rparr>"

definition luis :: usuario where
  "luis = \<lparr>nombre = ''Luis'', email = ''luis@example.org'', password = ''$2b$10$'',
           puntos = Some 0, co2_evitado = Some 0\<rparr>"

definition world0 :: world where
  "world0 =
     \<lparr>pg = \<lparr>usuarios = [1 \<mapsto> luis, 7 \<mapsto> ana], residuos = {3}, historial = []\<rparr>,
      mongo = [], console = []\<rparr>"

text \<open>
  The request of the spec's example: \<open>{puntos: 10, co2_evitado: 0.5, residuo_id: 3,
  fue_acierto: true}\<close> for user 7, with user 7's token.
\<close>

definition req7 :: request where
  "req7 =
     \<lparr>authorization = Some ''Bearer tok7'', params_id = ''7'', usuario = None,
      body_puntos = JNum 10, body_co2_evitado = JNum (1 / 2), body_residuo_id = JNum 3,
      body_fue_acierto = JBool True, body_usuario_id = JUndefined\<rparr>"

section \<open>What the properties speak of\<close>

text \<open>The number of attempts the primary store holds for a user.\<close>

definition intentos_de :: "int \<Rightarrow> store \<Rightarrow> nat" where
  "intentos_de u st = length (filter (\<lambda>h. usuario_id h = u) (historial st))"

text \<open>
  A request that reaches the handler of the route: any request in the copies without
  middleware, and one whose token \<open>verificarToken\<close> accepts in the last copy.
\<close>

definition admitted :: "version \<Rightarrow> env \<Rightarrow> request \<Rightarrow> bool" where
  "admitted v e req =
     (case v of
        Part_003 \<Rightarrow> (case verificarToken e req of Inl r \<Rightarrow> False | Inr req' \<Rightarrow> True)
      | _ \<Rightarrow> True)"

text \<open>
  Neither aggregate of the second row is below that of the first. A NULL on either
  side is not comparable.
\<close>

definition no_decrece :: "usuario \<Rightarrow> usuario \<Rightarrow> bool" where
  "no_decrece row row' =
     (case (puntos row, puntos row', co2_evitado row, co2_evitado row') of
        (Some p, Some p', Some c, Some c') \<Rightarrow> p \<le> p' \<and> c \<le> c'
      | _ \<Rightarrow> False)"


section \<open>Two calls in flight\<close>

text \<open>
  A call of the handler of the progress route gives up control at its two \<open>await\<close>s
  and nowhere else, and each statement is one step of the store. So a call in flight is
  about to send its insert, about to send its update, or answered; \<open>paso\<close> lets it
  run to its next \<open>await\<close> (or to its answer), as \<open>progreso\<close> does in one go.
\<close>

datatype phase = At_insert | At_update | Answered reply

fun paso :: "version \<Rightarrow> env \<Rightarrow> request \<Rightarrow> phase \<Rightarrow> store \<Rightarrow> phase \<times> store" where
  "paso v e req At_insert st =
     (case insert_historial e st (params_id req) (body_residuo_id req) (body_fue_acierto req) of
        Inl x \<Rightarrow> (Answered (Reply 500 (error_al_guardar v)), st)
      | Inr s1 \<Rightarrow> (At_update, s1))"
| "paso v e req At_update st =
     (case update_usuarios e st (body_puntos req) (body_co2_evitado req) (params_id req) of
        Inl x \<Rightarrow> (Answered (Reply 500 (error_al_guardar v)), st)
      | Inr s2 \<Rightarrow> (Answered (Reply 200 Body_success), s2))"
| "paso v e req (Answered r) st = (Answered r, st)"

text \<open>
  Two calls, of a first and a second caller, on one store: the schedule says whose turn
  each step is.
\<close>

datatype caller = Caller_a | Caller_b

fun concurrent ::
  "version \<Rightarrow> env \<Rightarrow> request \<Rightarrow> request \<Rightarrow> caller list
     \<Rightarrow> phase \<times> phase \<times> store \<Rightarrow> phase \<times> phase \<times> store" where
  "concurrent v e ra rb [] c = c"
| "concurrent v e ra rb (Caller_a # ts) (pa, pb, st) =
     (case paso v e ra pa st of (pa', st') \<Rightarrow> concurrent v e ra rb ts (pa', pb, st'))"
| "concurrent v e ra rb (Caller_b # ts) (pa, pb, st) =
     (case paso v e rb pb st of (pb', st') \<Rightarrow> concurrent v e ra rb ts (pa, pb', st'))"

text \<open>A second request for user 7: \<open>{puntos: 5, co2_evitado: 0.25}\<close>, same item.\<close>

definition req7b :: request where
  "req7b = req7\<lparr>body_puntos := JNum 5, body_co2_evitado := JNum (1 / 4)\<rparr>"

section \<open>The examples, evaluated\<close>

lemma env_ok_sel [simp]:
  "int4in env_ok = decimal"
  "historial_check env_ok = (\<lambda>r a. True)"
  "usuarios_check env_ok = (\<lambda>p c. True)"
  "insert_fault env_ok = False"
  "update_fault env_ok = False"
  "sp_registrar_clasificacion env_ok = sp_ok"
  "jwt_verify env_ok = map_of [(''tok1'', 1), (''tok7'', 7)]"
  "parseInt env_ok = parseInt_ok"
  "mongoose_save env_ok = Some"
  "now env_ok = 0"
  by (simp_all add: env_ok_def)

lemma decimal_7 [simp]: "decimal ''7'' = Some 7"
  by (simp add: decimal_def)

lemma world0_sel [simp]:
  "usuarios (pg world0) = [1 \<mapsto> luis, 7 \<mapsto> ana]"
  "residuos (pg world0) = {3}"
  "historial (pg world0) = []"
  "mongo world0 = []"
  "console world0 = []"
  by (simp_all add: world0_def)

lemma req7_sel [simp]:
  "authorization req7 = Some ''Bearer tok7''"
  "params_id req7 = ''7''"
  "body_puntos req7 = JNum 10"
  "body_co2_evitado req7 = JNum (1 / 2)"
  "body_residuo_id req7 = JNum 3"
  "body_fue_acierto req7 = JBool True"
  "body_usuario_id req7 = JUndefined"
  by (simp_all add: req7_def)

lemma ana_sel [simp]: "puntos ana = Some 20" "co2_evitado ana = Some 1"
  by (simp_all add: ana_def)

section \<open>The statements and the handler\<close>

lemma insert_historial_Inr:
  assumes "insert_historial e st ident rid ac = Inr s1"
  shows "\<exists>u r a. int4in e ident = Some u \<and> pg_int4 e rid = Inr r \<and> pg_bool e ac = Inr a
           \<and> usuarios st u \<noteq> None
           \<and> s1 = st\<lparr>historial := historial st @
                  [\<lparr>usuario_id = u, residuo_id = r, acierto = a, fecha = now e\<rparr>]\<rparr>"
  using assms
  by (auto simp: insert_historial_def split: if_splits option.splits sum.splits)

lemma update_usuarios_Inr:
  assumes "update_usuarios e st p c ident = Inr s2"
  shows "\<exists>u p' c'. int4in e ident = Some u \<and> pg_int4 e p = Inr p' \<and> pg_float e c = Inr c'
           \<and> (case usuarios st u of
                 None \<Rightarrow> s2 = st
               | Some row \<Rightarrow> s2 = st\<lparr>usuarios := (usuarios st)(u \<mapsto> row\<lparr>puntos := p', co2_evitado := c'\<rparr>)\<rparr>)"
  using assms
  by (auto simp: update_usuarios_def split: if_splits option.splits sum.splits)

lemma update_usuarios_keeps:
  "update_usuarios e st p c ident = Inr s2 \<Longrightarrow> historial s2 = historial st \<and> residuos s2 = residuos st"
  by (auto simp: update_usuarios_def split: if_splits option.splits sum.splits)

lemma progreso_insert_failed:
  "insert_historial e (pg w) (params_id req) (body_residuo_id req) (body_fue_acierto req) = Inl x
   \<Longrightarrow> progreso v e req w = progreso_catch v (Pg x) w [Sql_failed Insert_historial x]"
  by (simp add: progreso_def)

lemma progreso_update_failed:
  "insert_historial e (pg w) (params_id req) (body_residuo_id req) (body_fue_acierto req) = Inr s1
   \<Longrightarrow> update_usuarios e s1 (body_puntos req) (body_co2_evitado req) (params_id req) = Inl x
   \<Longrightarrow> progreso v e req w = progreso_catch v (Pg x) (w\<lparr>pg := s1\<rparr>)
              [Sql_ok Insert_historial, Sql_failed Update_usuarios x]"
  by (simp add: progreso_def)

lemma progreso_both_ok:
  "insert_historial e (pg w) (params_id req) (body_residuo_id req) (body_fue_acierto req) = Inr s1
   \<Longrightarrow> update_usuarios e s1 (body_puntos req) (body_co2_evitado req) (params_id req) = Inr s2
   \<Longrightarrow> progreso v e req w =
         \<lparr>response = Reply 200 Body_success,
          after = settle_mirror e (mirror_label v) (progreso_doc v e req) (w\<lparr>pg := s2\<rparr>),
          trace = [Sql_ok Insert_historial, Sql_ok Update_usuarios, Mirror_sent (progreso_doc v e req),
                   Responded (Reply 200 Body_success), mirror_event e (progreso_doc v e req)]\<rparr>"
  by (simp add: progreso_def Let_def)

lemma progreso_catch_sel [simp]:
  "pg (after (progreso_catch v err w evs)) = pg w"
  "mongo (after (progreso_catch v err w evs)) = mongo w"
  "response (progreso_catch v err w evs) = Reply 500 (error_al_guardar v)"
  "trace (progreso_catch v err w evs) = evs @ [Responded (Reply 500 (error_al_guardar v))]"
  by (simp_all add: progreso_catch_def Let_def)

lemma settle_mirror_pg [simp]: "pg (settle_mirror e l d w) = pg w"
  by (simp add: settle_mirror_def split: option.splits)

lemma progreso_doc_ignores_usuario: "progreso_doc v e (req\<lparr>usuario := x\<rparr>) = progreso_doc v e req"
  by (cases v) (simp_all add: progreso_doc_def)

lemma progreso_ignores_usuario: "progreso v e (req\<lparr>usuario := x\<rparr>) w = progreso v e req w"
  by (simp add: progreso_def progreso_doc_ignores_usuario split: sum.splits)

lemma verificarToken_Inr: "verificarToken e req = Inr req' \<Longrightarrow> \<exists>d. req' = req\<lparr>usuario := Some d\<rparr>"
  by (auto simp: verificarToken_def split: option.splits if_splits)

lemma put_progreso_admitted: "admitted v e req \<Longrightarrow> put_progreso v e req w = progreso v e req w"
  by (cases v)
     (auto simp: admitted_def put_progreso_def progreso_ignores_usuario
           split: sum.splits dest: verificarToken_Inr)

lemma insert_example:
  "insert_historial env_ok (pg world0) ''7'' (JNum 3) (JBool True) =
     Inr ((pg world0)\<lparr>historial := [\<lparr>usuario_id = 7, residuo_id = Some 3, acierto = Some True, fecha = 0\<rparr>]\<rparr>)"
  by (simp add: insert_historial_def)

section \<open>The two writes are two statements\<close>

text \<open>
  C1, amended. The spec asks for one transaction around the insert into \<open>historial\<close>
  and the update of \<open>usuarios\<close>; the route issues two \<open>pool.query\<close> calls, each
  committed on its own. For a request that reaches the handler: when the insert fails
  nothing is written and the answer is the 500 of the \<open>catch\<close> block; when the insert
  succeeds and the update fails the attempt stays (the user's count is one more), the
  table of users is as before, and the answer is the same 500; when both succeed the
  store is the one the update leaves, with one more attempt of the user, and the answer
  is \<open>{success: true}\<close>.
\<close>

theorem progreso_two_statements:
  assumes "admitted v e req"
  shows
    "(insert_historial e (pg w) (params_id req) (body_residuo_id req) (body_fue_acierto req) = Inl x
        \<longrightarrow> pg (after (put_progreso v e req w)) = pg w
          \<and> response (put_progreso v e req w) = Reply 500 (error_al_guardar v))
     \<and> (insert_historial e (pg w) (params_id req) (body_residuo_id req) (body_fue_acierto req) = Inr s1
        \<and> update_usuarios e s1 (body_puntos req) (body_co2_evitado req) (params_id req) = Inl y
        \<and> int4in e (params_id req) = Some u
        \<longrightarrow> pg (after (put_progreso v e req w)) = s1
          \<and> intentos_de u s1 = Suc (intentos_de u (pg w))
          \<and> usuarios s1 = usuarios (pg w)
          \<and> response (put_progreso v e req w) = Reply 500 (error_al_guardar v))
     \<and> (insert_historial e (pg w) (params_id req) (body_residuo_id req) (body_fue_acierto req) = Inr s1
        \<and> update_usuarios e s1 (body_puntos req) (body_co2_evitado req) (params_id req) = Inr s2
        \<and> int4in e (params_id req) = Some u
        \<longrightarrow> pg (after (put_progreso v e req w)) = s2
          \<and> intentos_de u s2 = Suc (intentos_de u (pg w))
          \<and> response (put_progreso v e req w) = Reply 200 Body_success)"
proof -
  note route = put_progreso_admitted [OF assms]
  have failed_insert:
    "pg (after (put_progreso v e req w)) = pg w
       \<and> response (put_progreso v e req w) = Reply 500 (error_al_guardar v)"
    if "insert_historial e (pg w) (params_id req) (body_residuo_id req) (body_fue_acierto req) = Inl x"
    using that by (simp add: route progreso_insert_failed)
  have appended: "intentos_de u s1 = Suc (intentos_de u (pg w)) \<and> usuarios s1 = usuarios (pg w)"
    if "insert_historial e (pg w) (params_id req) (body_residuo_id req) (body_fue_acierto req) = Inr s1"
      and "int4in e (params_id req) = Some u"
    using insert_historial_Inr [OF that(1)] that(2) by (auto simp: intentos_de_def)
  have failed_update:
    "pg (after (put_progreso v e req w)) = s1
       \<and> response (put_progreso v e req w) = Reply 500 (error_al_guardar v)"
    if "insert_historial e (pg w) (params_id req) (body_residuo_id req) (body_fue_acierto req) = Inr s1"
      and "update_usuarios e s1 (body_puntos req) (body_co2_evitado req) (params_id req) = Inl y"
    using that by (simp add: route progreso_update_failed)
  have both:
    "pg (after (put_progreso v e req w)) = s2
       \<and> response (put_progreso v e req w) = Reply 200 Body_success"
    if "insert_historial e (pg w) (params_id req) (body_residuo_id req) (body_fue_acierto req) = Inr s1"
      and "update_usuarios e s1 (body_puntos req) (body_co2_evitado req) (params_id req) = Inr s2"
    using that by (simp add: route progreso_both_ok)
  have kept: "intentos_de u s2 = intentos_de u s1"
    if "update_usuarios e s1 (body_puntos req) (body_co2_evitado req) (params_id req) = Inr s2"
    using update_usuarios_keeps [OF that] by (simp add: intentos_de_def)
  show ?thesis
    using failed_insert appended failed_update both kept by simp
qed

lemma admitted_no_middleware [simp]: "admitted Server_index e req" "admitted Part_002 e req"
  by (simp_all add: admitted_def)

lemma env_fault_sel [simp]:
  "insert_fault (e\<lparr>update_fault := b\<rparr>) = insert_fault e"
  "int4in (e\<lparr>update_fault := b\<rparr>) = int4in e"
  by simp_all

lemma insert_fault_example:
  "insert_historial (env_ok\<lparr>insert_fault := True\<rparr>) (pg world0) ''7'' (JNum 3) (JBool True)
     = Inl Connection_failure"
  by (simp add: insert_historial_def)

lemma insert_before_fault:
  "insert_historial (env_ok\<lparr>update_fault := True\<rparr>) (pg world0) ''7'' (JNum 3) (JBool True) =
     Inr ((pg world0)\<lparr>historial := [\<lparr>usuario_id = 7, residuo_id = Some 3, acierto = Some True, fecha = 0\<rparr>]\<rparr>)"
  by (simp add: insert_historial_def)

lemma update_fault_example:
  "update_usuarios (env_ok\<lparr>update_fault := True\<rparr>) st (JNum 10) (JNum (1 / 2)) ''7'' = Inl Connection_failure"
  by (simp add: update_usuarios_def)

lemma update_example:
  "update_usuarios env_ok ((pg world0)\<lparr>historial := h\<rparr>) (JNum 10) (JNum (1 / 2)) ''7'' =
     Inr ((pg world0)\<lparr>historial := h,
            usuarios := [1 \<mapsto> luis, 7 \<mapsto> ana\<lparr>puntos := Some 10, co2_evitado := Some (1 / 2)\<rparr>]\<rparr>)"
  by (simp add: update_usuarios_def)

theorem progreso_two_statements_witness:
  "(pg (after (put_progreso Server_index (env_ok\<lparr>insert_fault := True\<rparr>) req7 world0)) = pg world0
      \<and> response (put_progreso Server_index (env_ok\<lparr>insert_fault := True\<rparr>) req7 world0)
          = Reply 500 (error_al_guardar Server_index))
   \<and> (intentos_de 7 (pg (after (put_progreso Server_index (env_ok\<lparr>update_fault := True\<rparr>) req7 world0)))
          = Suc (intentos_de 7 (pg world0))
      \<and> usuarios (pg (after (put_progreso Server_index (env_ok\<lparr>update_fault := True\<rparr>) req7 world0)))
          = usuarios (pg world0)
      \<and> response (put_progreso Server_index (env_ok\<lparr>update_fault := True\<rparr>) req7 world0)
          = Reply 500 (error_al_guardar Server_index))
   \<and> (intentos_de 7 (pg (after (put_progreso Server_index env_ok req7 world0)))
          = Suc (intentos_de 7 (pg world0))
      \<and> response (put_progreso Server_index env_ok req7 world0) = Reply 200 Body_success)"
proof -
  have adm: "admitted Server_index e req7" for e by simp
  let ?s1 = "(pg world0)\<lparr>historial :=
               [\<lparr>usuario_id = 7, residuo_id = Some 3, acierto = Some True, fecha = 0\<rparr>]\<rparr>"
  let ?s2 = "(pg world0)\<lparr>historial :=
               [\<lparr>usuario_id = 7, residuo_id = Some 3, acierto = Some True, fecha = 0\<rparr>],
               usuarios := [1 \<mapsto> luis, 7 \<mapsto> ana\<lparr>puntos := Some 10, co2_evitado := Some (1 / 2)\<rparr>]\<rparr>"
  from progreso_two_statements [OF adm, of "env_ok\<lparr>insert_fault := True\<rparr>" world0 Connection_failure]
  have a: "pg (after (put_progreso Server_index (env_ok\<lparr>insert_fault := True\<rparr>) req7 world0)) = pg world0
      \<and> response (put_progreso Server_index (env_ok\<lparr>insert_fault := True\<rparr>) req7 world0)
          = Reply 500 (error_al_guardar Server_index)"
    by (simp add: insert_fault_example)
  from progreso_two_statements [OF adm, of "env_ok\<lparr>update_fault := True\<rparr>" world0 _ ?s1 Connection_failure 7]
  have b: "intentos_de 7 (pg (after (put_progreso Server_index (env_ok\<lparr>update_fault := True\<rparr>) req7 world0)))
          = Suc (intentos_de 7 (pg world0))
      \<and> usuarios (pg (after (put_progreso Server_index (env_ok\<lparr>update_fault := True\<rparr>) req7 world0)))
          = usuarios (pg world0)
      \<and> response (put_progreso Server_index (env_ok\<lparr>update_fault := True\<rparr>) req7 world0)
          = Reply 500 (error_al_guardar Server_index)"
    by (simp add: insert_before_fault update_fault_example)
  from progreso_two_statements [OF adm, of env_ok world0 _ ?s1 _ 7 ?s2]
  have c: "intentos_de 7 (pg (after (put_progreso Server_index env_ok req7 world0)))
          = Suc (intentos_de 7 (pg world0))
      \<and> response (put_progreso Server_index env_ok req7 world0) = Reply 200 Body_success"
    by (simp add: insert_example update_example)
  from a b c show ?thesis by simp
qed

text \<open>
  C1 as the spec states it fails: with the update failing after the insert, the answer
  is a 500 and yet the attempt of user 7 is in \<open>historial\<close>, which was empty, while the
  table of users is as it was.
\<close>

theorem progreso_atomic_counterexample:
  "response (put_progreso Server_index (env_ok\<lparr>update_fault := True\<rparr>) req7 world0)
      = Reply 500 (Body_error (JStr ''Error al guardar progreso''))
   \<and> historial (pg world0) = []
   \<and> historial (pg (after (put_progreso Server_index (env_ok\<lparr>update_fault := True\<rparr>) req7 world0)))
      = [\<lparr>usuario_id = 7, residuo_id = Some 3, acierto = Some True, fecha = 0\<rparr>]
   \<and> usuarios (pg (after (put_progreso Server_index (env_ok\<lparr>update_fault := True\<rparr>) req7 world0)))
      = usuarios (pg world0)"
  by (simp add: put_progreso_def progreso_def insert_before_fault update_fault_example
        error_al_guardar_def)

section \<open>The update overwrites the aggregate\<close>

lemma progreso_success:
  assumes "response (progreso v e req w) = Reply 200 Body_success"
  shows "\<exists>s1 s2.
           insert_historial e (pg w) (params_id req) (body_residuo_id req) (body_fue_acierto req) = Inr s1
           \<and> update_usuarios e s1 (body_puntos req) (body_co2_evitado req) (params_id req) = Inr s2"
  using assms by (auto simp: progreso_def split: sum.splits)

lemma put_progreso_success:
  assumes "response (put_progreso v e req w) = Reply 200 Body_success"
  shows "admitted v e req"
proof (cases v)
  case Part_003
  show ?thesis
  proof (cases "verificarToken e req")
    case (Inl r)
    then have "r = Reply 401 (Body_error (JStr ''Token requerido''))
                 \<or> r = Reply 403 (Body_error (JStr token_invalido))"
      by (auto simp: verificarToken_def split: option.splits if_splits)
    with assms Part_003 Inl show ?thesis
      by (auto simp: put_progreso_def)
  next
    case (Inr req')
    with Part_003 show ?thesis by (simp add: admitted_def)
  qed
qed (simp_all add: admitted_def)

text \<open>
  C2, amended. The spec has the deltas added to the stored values; the statement is
  \<open>UPDATE usuarios SET puntos = $1, co2_evitado = $2\<close>, which stores the supplied
  values. For every call answered with \<open>{success: true}\<close>, the row of the user takes
  the supplied \<open>puntos\<close> and \<open>co2_evitado\<close> as they are read at their columns, and
  \<open>historial\<close> has one more row, of this user, item and flag.
\<close>

theorem progreso_overwrites_aggregate:
  assumes ok: "response (put_progreso v e req w) = Reply 200 Body_success"
    and u: "int4in e (params_id req) = Some u"
    and p: "pg_int4 e (body_puntos req) = Inr p"
    and c: "pg_float e (body_co2_evitado req) = Inr c"
    and r: "pg_int4 e (body_residuo_id req) = Inr r"
    and a: "pg_bool e (body_fue_acierto req) = Inr a"
  shows "\<exists>row. usuarios (pg w) u = Some row
           \<and> usuarios (pg (after (put_progreso v e req w))) =
               (usuarios (pg w))(u \<mapsto> row\<lparr>puntos := p, co2_evitado := c\<rparr>)
           \<and> historial (pg (after (put_progreso v e req w))) =
               historial (pg w) @ [\<lparr>usuario_id = u, residuo_id = r, acierto = a, fecha = now e\<rparr>]"
proof -
  have route: "put_progreso v e req w = progreso v e req w"
    by (rule put_progreso_admitted) (rule put_progreso_success [OF ok])
  with ok obtain s1 s2 where
    i: "insert_historial e (pg w) (params_id req) (body_residuo_id req) (body_fue_acierto req) = Inr s1"
    and up: "update_usuarios e s1 (body_puntos req) (body_co2_evitado req) (params_id req) = Inr s2"
    using progreso_success by fastforce
  from insert_historial_Inr [OF i] u r a obtain row where
    row: "usuarios (pg w) u = Some row"
    and s1: "s1 = (pg w)\<lparr>historial := historial (pg w) @
                  [\<lparr>usuario_id = u, residuo_id = r, acierto = a, fecha = now e\<rparr>]\<rparr>"
    by auto
  from update_usuarios_Inr [OF up] u p c row
  have s2: "s2 = s1\<lparr>usuarios := (usuarios s1)(u \<mapsto> row\<lparr>puntos := p, co2_evitado := c\<rparr>)\<rparr>"
    by (auto simp: s1)
  have "pg (after (put_progreso v e req w)) = s2"
    by (simp add: route progreso_both_ok [OF i up])
  with row show ?thesis by (simp add: s2 s1)
qed

lemma progreso_example:
  "progreso v env_ok req7 world0 =
     \<lparr>response = Reply 200 Body_success,
      after = world0
        \<lparr>pg := (pg world0)
           \<lparr>historial := [\<lparr>usuario_id = 7, residuo_id = Some 3, acierto = Some True, fecha = 0\<rparr>],
            usuarios := [1 \<mapsto> luis, 7 \<mapsto> ana\<lparr>puntos := Some 10, co2_evitado := Some (1 / 2)\<rparr>]\<rparr>,
         mongo := [progreso_doc v env_ok req7]\<rparr>,
      trace = [Sql_ok Insert_historial, Sql_ok Update_usuarios, Mirror_sent (progreso_doc v env_ok req7),
               Responded (Reply 200 Body_success), Mirror_saved]\<rparr>"
  by (simp add: progreso_def insert_example update_example settle_mirror_def mirror_event_def Let_def)

lemma verificarToken_example: "verificarToken env_ok req7 = Inr (req7\<lparr>usuario := Some 7\<rparr>)"
  by (simp add: verificarToken_def)

lemma admitted_example [simp]: "admitted v env_ok req7"
  by (cases v) (simp_all add: admitted_def verificarToken_example)

lemma put_progreso_example: "put_progreso v env_ok req7 world0 = progreso v env_ok req7 world0"
  by (simp add: put_progreso_admitted)

theorem progreso_overwrites_aggregate_witness:
  "response (put_progreso Part_002 env_ok req7 world0) = Reply 200 Body_success
   \<and> usuarios (pg (after (put_progreso Part_002 env_ok req7 world0))) 7
       = Some (ana\<lparr>puntos := Some 10, co2_evitado := Some (1 / 2)\<rparr>)
   \<and> historial (pg (after (put_progreso Part_002 env_ok req7 world0)))
       = [\<lparr>usuario_id = 7, residuo_id = Some 3, acierto = Some True, fecha = 0\<rparr>]"
proof -
  have ok: "response (put_progreso Part_002 env_ok req7 world0) = Reply 200 Body_success"
    by (simp add: put_progreso_example progreso_example)
  from progreso_overwrites_aggregate [OF ok, of 7 "Some 10" "Some (1 / 2)" "Some 3" "Some True"]
  have "\<exists>row. usuarios (pg world0) 7 = Some row
           \<and> usuarios (pg (after (put_progreso Part_002 env_ok req7 world0))) =
               (usuarios (pg world0))(7 \<mapsto> row\<lparr>puntos := Some 10, co2_evitado := Some (1 / 2)\<rparr>)
           \<and> historial (pg (after (put_progreso Part_002 env_ok req7 world0))) =
               historial (pg world0) @ [\<lparr>usuario_id = 7, residuo_id = Some 3, acierto = Some True, fecha = now env_ok\<rparr>]"
    by simp
  with ok show ?thesis by auto
qed

text \<open>
  C2 as the spec states it fails on its own example: user 7 has 20 points and 1.0 of
  CO2, submits 10 and 0.5, is answered \<open>{success: true}\<close>, and is left with 10 and
  0.5, not 30 and 1.5.
\<close>

theorem progreso_adds_counterexample:
  "map_option puntos (usuarios (pg world0) 7) = Some (Some 20)
   \<and> map_option co2_evitado (usuarios (pg world0) 7) = Some (Some 1)
   \<and> response (put_progreso Part_002 env_ok req7 world0) = Reply 200 Body_success
   \<and> map_option puntos (usuarios (pg (after (put_progreso Part_002 env_ok req7 world0))) 7)
       = Some (Some 10)
   \<and> map_option co2_evitado (usuarios (pg (after (put_progreso Part_002 env_ok req7 world0))) 7)
       = Some (Some (1 / 2))
   \<and> map_option puntos (usuarios (pg (after (put_progreso Part_002 env_ok req7 world0))) 7)
       \<noteq> Some (Some (20 + 10))
   \<and> map_option co2_evitado (usuarios (pg (after (put_progreso Part_002 env_ok req7 world0))) 7)
       \<noteq> Some (Some (1 + 1 / 2))"
  by (simp add: put_progreso_example progreso_example)

section \<open>No guard against a lower aggregate\<close>

lemma progreso_user_after:
  assumes row: "usuarios (pg w) k = Some row"
  shows "usuarios (pg (after (progreso v e req w))) k = Some row
         \<or> (\<exists>p c. pg_int4 e (body_puntos req) = Inr p \<and> pg_float e (body_co2_evitado req) = Inr c
               \<and> int4in e (params_id req) = Some k
               \<and> usuarios (pg (after (progreso v e req w))) k = Some (row\<lparr>puntos := p, co2_evitado := c\<rparr>))"
proof (cases "insert_historial e (pg w) (params_id req) (body_residuo_id req) (body_fue_acierto req)")
  case (Inl x)
  with row show ?thesis by (simp add: progreso_insert_failed)
next
  case i: (Inr s1)
  from insert_historial_Inr [OF i] have us: "usuarios s1 = usuarios (pg w)" by auto
  show ?thesis
  proof (cases "update_usuarios e s1 (body_puntos req) (body_co2_evitado req) (params_id req)")
    case (Inl y)
    with i row us show ?thesis by (simp add: progreso_update_failed)
  next
    case up: (Inr s2)
    from update_usuarios_Inr [OF up] obtain u p c where
      u: "int4in e (params_id req) = Some u"
      and p: "pg_int4 e (body_puntos req) = Inr p"
      and c: "pg_float e (body_co2_evitado req) = Inr c"
      and s2: "(case usuarios s1 u of
                 None \<Rightarrow> s2 = s1
               | Some r \<Rightarrow> s2 = s1\<lparr>usuarios := (usuarios s1)(u \<mapsto> r\<lparr>puntos := p, co2_evitado := c\<rparr>)\<rparr>)"
      by blast
    have after: "pg (after (progreso v e req w)) = s2"
      by (simp add: progreso_both_ok [OF i up])
    show ?thesis
    proof (cases "u = k")
      case True
      with s2 us row have "usuarios s2 k = Some (row\<lparr>puntos := p, co2_evitado := c\<rparr>)" by simp
      with True u p c after show ?thesis by simp
    next
      case False
      with s2 us row have "usuarios s2 k = Some row" by (simp split: option.splits)
      with after show ?thesis by simp
    qed
  qed
qed

lemma put_progreso_user_after:
  assumes row: "usuarios (pg w) k = Some row"
  shows "usuarios (pg (after (put_progreso v e req w))) k = Some row
         \<or> (\<exists>p c. pg_int4 e (body_puntos req) = Inr p \<and> pg_float e (body_co2_evitado req) = Inr c
               \<and> int4in e (params_id req) = Some k
               \<and> usuarios (pg (after (put_progreso v e req w))) k = Some (row\<lparr>puntos := p, co2_evitado := c\<rparr>))"
proof (cases "admitted v e req")
  case True
  then show ?thesis using progreso_user_after [OF row] by (simp add: put_progreso_admitted)
next
  case False
  then have "pg (after (put_progreso v e req w)) = pg w"
    by (cases v) (auto simp: admitted_def put_progreso_def split: sum.splits)
  with row show ?thesis by simp
qed

text \<open>
  C3, amended. The route does not keep \<open>puntos\<close> and \<open>co2_evitado\<close> from going down:
  across a call a user's two fields are either left as they are or overwritten with the
  supplied values, so they do not decrease when the supplied values are not below the
  stored ones.
\<close>

theorem progreso_keeps_or_overwrites:
  assumes "usuarios (pg w) k = Some row"
  shows "(usuarios (pg (after (put_progreso v e req w))) k = Some row
          \<or> (\<exists>p c. pg_int4 e (body_puntos req) = Inr p \<and> pg_float e (body_co2_evitado req) = Inr c
                \<and> int4in e (params_id req) = Some k
                \<and> usuarios (pg (after (put_progreso v e req w))) k
                     = Some (row\<lparr>puntos := p, co2_evitado := c\<rparr>)))
         \<and> (puntos row = Some p0 \<and> co2_evitado row = Some c0
              \<and> pg_int4 e (body_puntos req) = Inr (Some p1) \<and> pg_float e (body_co2_evitado req) = Inr (Some c1)
              \<and> p0 \<le> p1 \<and> c0 \<le> c1
            \<longrightarrow> (\<exists>row'. usuarios (pg (after (put_progreso v e req w))) k = Some row'
                   \<and> no_decrece row row'))"
proof (intro conjI impI)
  show "usuarios (pg (after (put_progreso v e req w))) k = Some row
          \<or> (\<exists>p c. pg_int4 e (body_puntos req) = Inr p \<and> pg_float e (body_co2_evitado req) = Inr c
                \<and> int4in e (params_id req) = Some k
                \<and> usuarios (pg (after (put_progreso v e req w))) k
                     = Some (row\<lparr>puntos := p, co2_evitado := c\<rparr>))"
    by (rule put_progreso_user_after [OF assms])
next
  assume h: "puntos row = Some p0 \<and> co2_evitado row = Some c0
              \<and> pg_int4 e (body_puntos req) = Inr (Some p1) \<and> pg_float e (body_co2_evitado req) = Inr (Some c1)
              \<and> p0 \<le> p1 \<and> c0 \<le> c1"
  from put_progreso_user_after [OF assms, of v e req]
  show "\<exists>row'. usuarios (pg (after (put_progreso v e req w))) k = Some row' \<and> no_decrece row row'"
  proof
    assume "usuarios (pg (after (put_progreso v e req w))) k = Some row"
    with h show ?thesis by (auto simp: no_decrece_def)
  next
    assume "\<exists>p c. pg_int4 e (body_puntos req) = Inr p \<and> pg_float e (body_co2_evitado req) = Inr c
               \<and> int4in e (params_id req) = Some k
               \<and> usuarios (pg (after (put_progreso v e req w))) k = Some (row\<lparr>puntos := p, co2_evitado := c\<rparr>)"
    with h show ?thesis by (auto simp: no_decrece_def)
  qed
qed

text \<open>
  The witness: user 7, with 20 points and 1.0 of CO2, submits 25 and 2.
\<close>

theorem progreso_keeps_or_overwrites_witness:
  "usuarios (pg world0) 7 = Some ana
   \<and> (\<exists>row'. usuarios (pg (after (put_progreso Part_003 env_ok
                (req7\<lparr>body_puntos := JNum 25, body_co2_evitado := JNum 2\<rparr>) world0))) 7 = Some row'
        \<and> no_decrece ana row')"
proof -
  have row: "usuarios (pg world0) 7 = Some ana" by simp
  from progreso_keeps_or_overwrites [OF row, of Part_003 env_ok
      "req7\<lparr>body_puntos := JNum 25, body_co2_evitado := JNum 2\<rparr>" 20 1 25 2]
  show ?thesis by simp
qed

text \<open>
  C3 as the spec states it fails: the call of the spec's own example takes user 7 from
  20 points and 1.0 of CO2 down to 10 and 0.5.
\<close>

theorem progreso_monotone_counterexample:
  "usuarios (pg world0) 7 = Some ana
   \<and> puntos ana = Some 20 \<and> co2_evitado ana = Some 1
   \<and> usuarios (pg (after (put_progreso Part_003 env_ok req7 world0))) 7
       = Some (ana\<lparr>puntos := Some 10, co2_evitado := Some (1 / 2)\<rparr>)
   \<and> \<not> no_decrece ana (ana\<lparr>puntos := Some 10, co2_evitado := Some (1 / 2)\<rparr>)"
  by (simp add: put_progreso_example progreso_example no_decrece_def)

section \<open>What the middleware checks\<close>

lemma req7_authorization_sel [simp]:
  "params_id (req7\<lparr>authorization := a\<rparr>) = ''7''"
  "body_puntos (req7\<lparr>authorization := a\<rparr>) = JNum 10"
  "body_co2_evitado (req7\<lparr>authorization := a\<rparr>) = JNum (1 / 2)"
  "body_residuo_id (req7\<lparr>authorization := a\<rparr>) = JNum 3"
  "body_fue_acierto (req7\<lparr>authorization := a\<rparr>) = JBool True"
  by simp_all

lemma progreso_ignores_authorization:
  "progreso v e (req\<lparr>authorization := a\<rparr>) w = progreso v e req w"
proof -
  have "progreso_doc v e (req\<lparr>authorization := a\<rparr>) = progreso_doc v e req"
    by (cases v) (simp_all add: progreso_doc_def)
  then show ?thesis by (simp add: progreso_def split: sum.splits)
qed

text \<open>
  C4, amended. \<open>verificarToken\<close> stands before the route in the last copy only, and it
  checks the token, not whose it is: with no \<open>Authorization\<close> header or an empty one
  the answer is 401, with a header that carries no token \<open>jwt.verify\<close> accepts it is
  403, and in both cases nothing is written; with an accepted token the handler runs,
  whatever identity \<open>d\<close> the token was issued for (\<open>req.usuario\<close> is never compared
  with \<open>:id\<close>). The two other copies run the handler unconditionally.
\<close>

theorem verificarToken_gate:
  "(authorization req = None \<or> authorization req = Some []
      \<longrightarrow> put_progreso Part_003 e req w =
            \<lparr>response = Reply 401 (Body_error (JStr ''Token requerido'')), after = w,
             trace = [Responded (Reply 401 (Body_error (JStr ''Token requerido'')))]\<rparr>)
   \<and> (authorization req = Some h \<and> h \<noteq> []
        \<and> (js_index (js_split CHR '' '' h) 1 = None
           \<or> js_index (js_split CHR '' '' h) 1 = Some t \<and> jwt_verify e t = None)
      \<longrightarrow> put_progreso Part_003 e req w =
            \<lparr>response = Reply 403 (Body_error (JStr token_invalido)), after = w,
             trace = [Responded (Reply 403 (Body_error (JStr token_invalido)))]\<rparr>)
   \<and> (authorization req = Some h \<and> h \<noteq> []
        \<and> js_index (js_split CHR '' '' h) 1 = Some t \<and> jwt_verify e t = Some d
      \<longrightarrow> put_progreso Part_003 e req w = progreso Part_003 e req w)
   \<and> put_progreso Server_index e req w = progreso Server_index e req w
   \<and> put_progreso Part_002 e req w = progreso Part_002 e req w"
proof (intro conjI impI)
  assume "authorization req = None \<or> authorization req = Some []"
  then have "verificarToken e req = Inl (Reply 401 (Body_error (JStr ''Token requerido'')))"
    by (auto simp: verificarToken_def)
  then show "put_progreso Part_003 e req w =
            \<lparr>response = Reply 401 (Body_error (JStr ''Token requerido'')), after = w,
             trace = [Responded (Reply 401 (Body_error (JStr ''Token requerido'')))]\<rparr>"
    by (simp add: put_progreso_def)
next
  assume "authorization req = Some h \<and> h \<noteq> []
        \<and> (js_index (js_split CHR '' '' h) 1 = None
           \<or> js_index (js_split CHR '' '' h) 1 = Some t \<and> jwt_verify e t = None)"
  then have "verificarToken e req = Inl (Reply 403 (Body_error (JStr token_invalido)))"
    by (auto simp: verificarToken_def)
  then show "put_progreso Part_003 e req w =
            \<lparr>response = Reply 403 (Body_error (JStr token_invalido)), after = w,
             trace = [Responded (Reply 403 (Body_error (JStr token_invalido)))]\<rparr>"
    by (simp add: put_progreso_def)
next
  assume "authorization req = Some h \<and> h \<noteq> []
        \<and> js_index (js_split CHR '' '' h) 1 = Some t \<and> jwt_verify e t = Some d"
  then have "verificarToken e req = Inr (req\<lparr>usuario := Some d\<rparr>)"
    by (auto simp: verificarToken_def)
  then show "put_progreso Part_003 e req w = progreso Part_003 e req w"
    by (simp add: put_progreso_def progreso_ignores_usuario)
qed (simp_all add: put_progreso_def)

lemma bearer_split [simp]:
  "js_index (js_split CHR '' '' ''Bearer tok1'') 1 = Some ''tok1''"
  "js_index (js_split CHR '' '' ''Bearer nada'') 1 = Some ''nada''"
  "js_index (js_split CHR '' '' ''tok7'') 1 = None"
  by simp_all

theorem verificarToken_gate_witness:
  "put_progreso Part_003 env_ok (req7\<lparr>authorization := None\<rparr>) world0 =
      \<lparr>response = Reply 401 (Body_error (JStr ''Token requerido'')), after = world0,
       trace = [Responded (Reply 401 (Body_error (JStr ''Token requerido'')))]\<rparr>
   \<and> put_progreso Part_003 env_ok (req7\<lparr>authorization := Some ''Bearer nada''\<rparr>) world0 =
      \<lparr>response = Reply 403 (Body_error (JStr token_invalido)), after = world0,
       trace = [Responded (Reply 403 (Body_error (JStr token_invalido)))]\<rparr>
   \<and> put_progreso Part_003 env_ok (req7\<lparr>authorization := Some ''tok7''\<rparr>) world0 =
      \<lparr>response = Reply 403 (Body_error (JStr token_invalido)), after = world0,
       trace = [Responded (Reply 403 (Body_error (JStr token_invalido)))]\<rparr>
   \<and> put_progreso Part_003 env_ok (req7\<lparr>authorization := Some ''Bearer tok1''\<rparr>) world0 =
      progreso Part_003 env_ok (req7\<lparr>authorization := Some ''Bearer tok1''\<rparr>) world0
   \<and> response (progreso Part_003 env_ok (req7\<lparr>authorization := Some ''Bearer tok1''\<rparr>) world0)
       = Reply 200 Body_success"
proof -
  from verificarToken_gate [where req = "req7\<lparr>authorization := None\<rparr>" and e = env_ok and w = world0]
  have a: "put_progreso Part_003 env_ok (req7\<lparr>authorization := None\<rparr>) world0 =
      \<lparr>response = Reply 401 (Body_error (JStr ''Token requerido'')), after = world0,
       trace = [Responded (Reply 401 (Body_error (JStr ''Token requerido'')))]\<rparr>"
    by simp
  from verificarToken_gate [where req = "req7\<lparr>authorization := Some ''Bearer nada''\<rparr>"
      and h = "''Bearer nada''" and t = "''nada''" and e = env_ok and w = world0]
  have b: "put_progreso Part_003 env_ok (req7\<lparr>authorization := Some ''Bearer nada''\<rparr>) world0 =
      \<lparr>response = Reply 403 (Body_error (JStr token_invalido)), after = world0,
       trace = [Responded (Reply 403 (Body_error (JStr token_invalido)))]\<rparr>"
    by simp
  from verificarToken_gate [where req = "req7\<lparr>authorization := Some ''tok7''\<rparr>"
      and h = "''tok7''" and e = env_ok and w = world0]
  have c: "put_progreso Part_003 env_ok (req7\<lparr>authorization := Some ''tok7''\<rparr>) world0 =
      \<lparr>response = Reply 403 (Body_error (JStr token_invalido)), after = world0,
       trace = [Responded (Reply 403 (Body_error (JStr token_invalido)))]\<rparr>"
    by simp
  from verificarToken_gate [where req = "req7\<lparr>authorization := Some ''Bearer tok1''\<rparr>"
      and h = "''Bearer tok1''" and t = "''tok1''" and d = 1 and e = env_ok and w = world0]
  have d: "put_progreso Part_003 env_ok (req7\<lparr>authorization := Some ''Bearer tok1''\<rparr>) world0 =
      progreso Part_003 env_ok (req7\<lparr>authorization := Some ''Bearer tok1''\<rparr>) world0"
    by simp
  have "response (progreso Part_003 env_ok (req7\<lparr>authorization := Some ''Bearer tok1''\<rparr>) world0)
       = Reply 200 Body_success"
    by (simp add: progreso_ignores_authorization progreso_example)
  with a b c d show ?thesis by simp
qed

text \<open>
  C4 as the spec states it fails: the token of user 1 submits progress for user 7, is
  answered \<open>{success: true}\<close>, and user 7's row and history are written.
\<close>

theorem identity_mismatch_counterexample:
  "jwt_verify env_ok ''tok1'' = Some 1
   \<and> int4in env_ok (params_id (req7\<lparr>authorization := Some ''Bearer tok1''\<rparr>)) = Some 7
   \<and> response (put_progreso Part_003 env_ok (req7\<lparr>authorization := Some ''Bearer tok1''\<rparr>) world0)
       = Reply 200 Body_success
   \<and> usuarios (pg (after (put_progreso Part_003 env_ok (req7\<lparr>authorization := Some ''Bearer tok1''\<rparr>) world0))) 7
       = Some (ana\<lparr>puntos := Some 10, co2_evitado := Some (1 / 2)\<rparr>)
   \<and> historial (pg (after (put_progreso Part_003 env_ok (req7\<lparr>authorization := Some ''Bearer tok1''\<rparr>) world0)))
       = [\<lparr>usuario_id = 7, residuo_id = Some 3, acierto = Some True, fecha = 0\<rparr>]"
proof -
  have "verificarToken env_ok (req7\<lparr>authorization := Some ''Bearer tok1''\<rparr>)
          = Inr (req7\<lparr>authorization := Some ''Bearer tok1'', usuario := Some 1\<rparr>)"
    by (simp add: verificarToken_def)
  then have "put_progreso Part_003 env_ok (req7\<lparr>authorization := Some ''Bearer tok1''\<rparr>) world0
          = progreso Part_003 env_ok req7 world0"
    by (simp add: put_progreso_def progreso_ignores_usuario progreso_ignores_authorization)
  then show ?thesis by (simp add: progreso_example)
qed

section \<open>A body without \<open>fue_acierto\<close>\<close>

text \<open>
  C5. The handler of \<open>PUT /api/usuarios/:id/progreso\<close> reads \<open>fue_acierto\<close> from the
  body and passes it on; unlike \<open>POST /api/clasificacion/registrar\<close>, it does not
  test it. The spec's example request without \<open>fue_acierto\<close> is sent to the store with
  NULL for \<open>acierto\<close>: where the column takes NULL the answer is \<open>{success: true}\<close>,
  the attempt is recorded and the aggregate is overwritten; where the column is declared
  NOT NULL the answer is the 500 of the \<open>catch\<close> block, which names no field.
\<close>

theorem progreso_without_fue_acierto:
  "response (put_progreso Server_index env_ok (req7\<lparr>body_fue_acierto := JUndefined\<rparr>) world0)
      = Reply 200 Body_success
   \<and> historial (pg (after (put_progreso Server_index env_ok (req7\<lparr>body_fue_acierto := JUndefined\<rparr>) world0)))
      = [\<lparr>usuario_id = 7, residuo_id = Some 3, acierto = None, fecha = 0\<rparr>]
   \<and> usuarios (pg (after (put_progreso Server_index env_ok (req7\<lparr>body_fue_acierto := JUndefined\<rparr>) world0))) 7
      = Some (ana\<lparr>puntos := Some 10, co2_evitado := Some (1 / 2)\<rparr>)
   \<and> response (put_progreso Server_index (env_ok\<lparr>historial_check := \<lambda>r a. a \<noteq> None\<rparr>)
         (req7\<lparr>body_fue_acierto := JUndefined\<rparr>) world0)
      = Reply 500 (Body_error (JStr ''Error al guardar progreso''))"
  by (simp add: put_progreso_def progreso_def insert_historial_def update_usuarios_def
        settle_mirror_def progreso_catch_def error_al_guardar_def Let_def)

section \<open>The mirror is invisible to the caller\<close>

lemma readers_ignore_mongoose_save [simp]:
  "pg_int4 (e\<lparr>mongoose_save := f\<rparr>) x = pg_int4 e x"
  "pg_float (e\<lparr>mongoose_save := f\<rparr>) x = pg_float e x"
  "pg_bool (e\<lparr>mongoose_save := f\<rparr>) x = pg_bool e x"
  by (cases x; simp)+

lemma statements_ignore_mongoose_save [simp]:
  "insert_historial (e\<lparr>mongoose_save := f\<rparr>) = insert_historial e"
  "update_usuarios (e\<lparr>mongoose_save := f\<rparr>) = update_usuarios e"
  by (intro ext, simp add: insert_historial_def update_usuarios_def
        cong: option.case_cong sum.case_cong if_cong)+

lemma verificarToken_ignores_mongoose_save [simp]:
  "verificarToken (e\<lparr>mongoose_save := f\<rparr>) = verificarToken e"
  by (intro ext) (simp add: verificarToken_def cong: option.case_cong if_cong)

lemma progreso_doc_ignores_mongoose_save [simp]:
  "progreso_doc v (e\<lparr>mongoose_save := f\<rparr>) req = progreso_doc v e req"
  by (cases v) (simp_all add: progreso_doc_def)

lemma progreso_mongoose_save:
  "response (progreso v (e\<lparr>mongoose_save := f\<rparr>) req w) = response (progreso v e req w)
   \<and> pg (after (progreso v (e\<lparr>mongoose_save := f\<rparr>) req w)) = pg (after (progreso v e req w))"
  by (simp add: progreso_def Let_def split: sum.splits)

lemma put_progreso_mongoose_save:
  "response (put_progreso v (e\<lparr>mongoose_save := f\<rparr>) req w) = response (put_progreso v e req w)
   \<and> pg (after (put_progreso v (e\<lparr>mongoose_save := f\<rparr>) req w)) = pg (after (put_progreso v e req w))"
  by (cases v) (simp_all add: put_progreso_def progreso_mongoose_save split: sum.splits)

text \<open>
  C6. Two runs of the same call that differ only in what \<open>save()\<close> does (\<open>f\<close> and
  \<open>g\<close>) give the same response and leave the same primary store. When the primary
  writes succeed, the response is sent before the promise of \<open>save()\<close> settles, and a
  rejection leaves the secondary store as it was and one line on the console.
\<close>

theorem mirror_invisible:
  "response (put_progreso v (e\<lparr>mongoose_save := f\<rparr>) req w)
      = response (put_progreso v (e\<lparr>mongoose_save := g\<rparr>) req w)
   \<and> pg (after (put_progreso v (e\<lparr>mongoose_save := f\<rparr>) req w))
      = pg (after (put_progreso v (e\<lparr>mongoose_save := g\<rparr>) req w))
   \<and> (response (put_progreso v e req w) = Reply 200 Body_success
      \<longrightarrow> response (put_progreso v (e\<lparr>mongoose_save := \<lambda>d. None\<rparr>) req w) = Reply 200 Body_success
        \<and> trace (put_progreso v (e\<lparr>mongoose_save := \<lambda>d. None\<rparr>) req w)
            = [Sql_ok Insert_historial, Sql_ok Update_usuarios, Mirror_sent (progreso_doc v e req),
               Responded (Reply 200 Body_success), Mirror_dropped]
        \<and> mongo (after (put_progreso v (e\<lparr>mongoose_save := \<lambda>d. None\<rparr>) req w)) = mongo w
        \<and> console (after (put_progreso v (e\<lparr>mongoose_save := \<lambda>d. None\<rparr>) req w))
            = console w @ [(mirror_label v, Mongo_failure)])"
proof (intro conjI impI)
  show "response (put_progreso v (e\<lparr>mongoose_save := f\<rparr>) req w)
      = response (put_progreso v (e\<lparr>mongoose_save := g\<rparr>) req w)"
    by (simp add: put_progreso_mongoose_save)
  show "pg (after (put_progreso v (e\<lparr>mongoose_save := f\<rparr>) req w))
      = pg (after (put_progreso v (e\<lparr>mongoose_save := g\<rparr>) req w))"
    by (simp add: put_progreso_mongoose_save)
next
  let ?e = "e\<lparr>mongoose_save := \<lambda>d. None\<rparr>"
  assume ok: "response (put_progreso v e req w) = Reply 200 Body_success"
  then have ok': "response (put_progreso v ?e req w) = Reply 200 Body_success"
    by (simp add: put_progreso_mongoose_save)
  then show "response (put_progreso v ?e req w) = Reply 200 Body_success" .
  have route: "put_progreso v ?e req w = progreso v ?e req w"
    by (rule put_progreso_admitted) (rule put_progreso_success [OF ok'])
  with ok' obtain s1 s2 where
    i: "insert_historial ?e (pg w) (params_id req) (body_residuo_id req) (body_fue_acierto req) = Inr s1"
    and up: "update_usuarios ?e s1 (body_puntos req) (body_co2_evitado req) (params_id req) = Inr s2"
    using progreso_success [of v ?e req w] by auto
  note out = progreso_both_ok [OF i up, of v]
  show "trace (put_progreso v ?e req w)
            = [Sql_ok Insert_historial, Sql_ok Update_usuarios, Mirror_sent (progreso_doc v e req),
               Responded (Reply 200 Body_success), Mirror_dropped]"
    by (simp add: route out mirror_event_def)
  show "mongo (after (put_progreso v ?e req w)) = mongo w"
    by (simp add: route out settle_mirror_def)
  show "console (after (put_progreso v ?e req w)) = console w @ [(mirror_label v, Mongo_failure)]"
    by (simp add: route out settle_mirror_def)
qed

theorem mirror_invisible_witness:
  "response (put_progreso Server_index env_ok req7 world0) = Reply 200 Body_success
   \<and> response (put_progreso Server_index (env_ok\<lparr>mongoose_save := \<lambda>d. None\<rparr>) req7 world0)
       = Reply 200 Body_success
   \<and> mongo (after (put_progreso Server_index env_ok req7 world0)) = [progreso_doc Server_index env_ok req7]
   \<and> mongo (after (put_progreso Server_index (env_ok\<lparr>mongoose_save := \<lambda>d. None\<rparr>) req7 world0)) = []
   \<and> console (after (put_progreso Server_index (env_ok\<lparr>mongoose_save := \<lambda>d. None\<rparr>) req7 world0))
       = [(''Error guardando log en Mongo:'', Mongo_failure)]"
proof -
  have ok: "response (put_progreso Server_index env_ok req7 world0) = Reply 200 Body_success"
    by (simp add: put_progreso_example progreso_example)
  have "mongo (after (put_progreso Server_index env_ok req7 world0)) = [progreso_doc Server_index env_ok req7]"
    by (simp add: put_progreso_example progreso_example)
  with ok mirror_invisible [where v = Server_index and e = env_ok and req = req7 and w = world0
      and f = Some and g = "\<lambda>d. None"]
  show ?thesis by (simp add: mirror_label_def)
qed

section \<open>An item that does not exist\<close>

lemma insert_unknown_item:
  assumes "pg_int4 e rid = Inr (Some r)" and "r \<notin> residuos st"
  shows "\<exists>x. insert_historial e st ident rid ac = Inl x"
  using assms by (simp add: insert_historial_def split: option.splits sum.splits)

text \<open>
  C8, amended. The route has one \<open>catch\<close> block, which answers 500 whatever the store
  rejected. For a request that reaches the handler with a \<open>residuo_id\<close> that is read as
  an integer and is the id of no item, the answer is that 500, not a 4xx; nothing is
  written to the primary store and no mirror document is sent.
\<close>

theorem unknown_item_is_500:
  assumes "admitted v e req"
    and "pg_int4 e (body_residuo_id req) = Inr (Some r)"
    and "r \<notin> residuos (pg w)"
  shows "response (put_progreso v e req w) = Reply 500 (error_al_guardar v)
         \<and> pg (after (put_progreso v e req w)) = pg w
         \<and> mongo (after (put_progreso v e req w)) = mongo w
         \<and> (\<forall>d. Mirror_sent d \<notin> set (trace (put_progreso v e req w)))"
proof -
  from insert_unknown_item [OF assms(2,3)] obtain x where
    "insert_historial e (pg w) (params_id req) (body_residuo_id req) (body_fue_acierto req) = Inl x"
    by blast
  then have "progreso v e req w = progreso_catch v (Pg x) w [Sql_failed Insert_historial x]"
    by (rule progreso_insert_failed)
  then show ?thesis
    by (simp add: put_progreso_admitted [OF assms(1)])
qed

theorem unknown_item_is_500_witness:
  "response (put_progreso Part_002 env_ok (req7\<lparr>body_residuo_id := JNum 99\<rparr>) world0)
       = Reply 500 (Body_failure (JStr ''Error al guardar progreso''))
   \<and> pg (after (put_progreso Part_002 env_ok (req7\<lparr>body_residuo_id := JNum 99\<rparr>) world0)) = pg world0
   \<and> mongo (after (put_progreso Part_002 env_ok (req7\<lparr>body_residuo_id := JNum 99\<rparr>) world0)) = []"
  using unknown_item_is_500 [of Part_002 env_ok "req7\<lparr>body_residuo_id := JNum 99\<rparr>" 99 world0]
  by (simp add: error_al_guardar_def)

text \<open>
  C8 as the spec states it fails: item 99 does not exist, and the answer has status 500,
  which is not below 500.
\<close>

theorem unknown_item_counterexample:
  "99 \<notin> residuos (pg world0)
   \<and> status (response (put_progreso Part_002 env_ok (req7\<lparr>body_residuo_id := JNum 99\<rparr>) world0)) = 500
   \<and> \<not> status (response (put_progreso Part_002 env_ok (req7\<lparr>body_residuo_id := JNum 99\<rparr>) world0)) < 500"
  by (simp add: put_progreso_def progreso_def insert_historial_def)

section \<open>The mirror comes after the two writes\<close>

lemma put_progreso_rejected:
  assumes "\<not> admitted v e req"
  shows "\<exists>r. put_progreso v e req w = \<lparr>response = r, after = w, trace = [Responded r]\<rparr>"
  using assms by (cases v) (auto simp: admitted_def put_progreso_def split: sum.splits)

lemma progreso_trace_cases:
  "(\<exists>x. insert_historial e (pg w) (params_id req) (body_residuo_id req) (body_fue_acierto req) = Inl x
        \<and> progreso v e req w = progreso_catch v (Pg x) w [Sql_failed Insert_historial x])
   \<or> (\<exists>s1 x. insert_historial e (pg w) (params_id req) (body_residuo_id req) (body_fue_acierto req) = Inr s1
        \<and> update_usuarios e s1 (body_puntos req) (body_co2_evitado req) (params_id req) = Inl x
        \<and> progreso v e req w = progreso_catch v (Pg x) (w\<lparr>pg := s1\<rparr>)
              [Sql_ok Insert_historial, Sql_failed Update_usuarios x])
   \<or> (\<exists>s1 s2. insert_historial e (pg w) (params_id req) (body_residuo_id req) (body_fue_acierto req) = Inr s1
        \<and> update_usuarios e s1 (body_puntos req) (body_co2_evitado req) (params_id req) = Inr s2
        \<and> progreso v e req w =
         \<lparr>response = Reply 200 Body_success,
          after = settle_mirror e (mirror_label v) (progreso_doc v e req) (w\<lparr>pg := s2\<rparr>),
          trace = [Sql_ok Insert_historial, Sql_ok Update_usuarios, Mirror_sent (progreso_doc v e req),
                   Responded (Reply 200 Body_success), mirror_event e (progreso_doc v e req)]\<rparr>)"
  by (simp add: progreso_def Let_def split: sum.splits)

lemma mirror_event_not_sent [simp]:
  "mirror_event e d \<noteq> Mirror_sent d'"
  "Mirror_sent d' \<noteq> mirror_event e d"
  by (simp_all add: mirror_event_def split: option.splits)

text \<open>
  C9. If a mirror document is sent at all, the trace of the call begins with the two
  statements, both ended well, then the \<open>save()\<close>, then the response; and if either
  statement fails no mirror document is sent and the secondary store is as it was.
\<close>

theorem mirror_after_commit:
  "(Mirror_sent d \<in> set (trace (put_progreso v e req w))
      \<longrightarrow> trace (put_progreso v e req w)
            = [Sql_ok Insert_historial, Sql_ok Update_usuarios, Mirror_sent d,
               Responded (Reply 200 Body_success), mirror_event e d]
        \<and> (\<exists>s1 s2.
              insert_historial e (pg w) (params_id req) (body_residuo_id req) (body_fue_acierto req) = Inr s1
              \<and> update_usuarios e s1 (body_puntos req) (body_co2_evitado req) (params_id req) = Inr s2))
   \<and> (insert_historial e (pg w) (params_id req) (body_residuo_id req) (body_fue_acierto req) = Inl x
       \<or> insert_historial e (pg w) (params_id req) (body_residuo_id req) (body_fue_acierto req) = Inr s
         \<and> update_usuarios e s (body_puntos req) (body_co2_evitado req) (params_id req) = Inl x
      \<longrightarrow> (\<forall>d. Mirror_sent d \<notin> set (trace (put_progreso v e req w)))
        \<and> mongo (after (put_progreso v e req w)) = mongo w)"
proof (cases "admitted v e req")
  case False
  from put_progreso_rejected [OF False, of w] show ?thesis by auto
next
  case True
  then have route: "put_progreso v e req w = progreso v e req w"
    by (rule put_progreso_admitted)
  from progreso_trace_cases [of e w req v] show ?thesis
    unfolding route by (elim disjE exE conjE) auto
qed

theorem mirror_after_commit_witness:
  "trace (put_progreso Part_003 env_ok req7 world0)
      = [Sql_ok Insert_historial, Sql_ok Update_usuarios, Mirror_sent (progreso_doc Part_003 env_ok req7),
         Responded (Reply 200 Body_success), Mirror_saved]
   \<and> (\<forall>d. Mirror_sent d \<notin> set (trace (put_progreso Part_003 (env_ok\<lparr>update_fault := True\<rparr>) req7 world0)))
   \<and> mongo (after (put_progreso Part_003 (env_ok\<lparr>update_fault := True\<rparr>) req7 world0)) = []"
proof -
  have sent: "Mirror_sent (progreso_doc Part_003 env_ok req7)
               \<in> set (trace (put_progreso Part_003 env_ok req7 world0))"
    by (simp add: put_progreso_example progreso_example)
  from mirror_after_commit [of "progreso_doc Part_003 env_ok req7" Part_003 env_ok req7 world0] sent
  have a: "trace (put_progreso Part_003 env_ok req7 world0)
      = [Sql_ok Insert_historial, Sql_ok Update_usuarios, Mirror_sent (progreso_doc Part_003 env_ok req7),
         Responded (Reply 200 Body_success), Mirror_saved]"
    by (simp add: mirror_event_def)
  from mirror_after_commit [where v = Part_003 and e = "env_ok\<lparr>update_fault := True\<rparr>" and req = req7
      and w = world0 and x = Connection_failure
      and s = "(pg world0)\<lparr>historial :=
                 [\<lparr>usuario_id = 7, residuo_id = Some 3, acierto = Some True, fecha = 0\<rparr>]\<rparr>"]
  have b: "(\<forall>d. Mirror_sent d \<notin> set (trace (put_progreso Part_003 (env_ok\<lparr>update_fault := True\<rparr>) req7 world0)))
      \<and> mongo (after (put_progreso Part_003 (env_ok\<lparr>update_fault := True\<rparr>) req7 world0)) = []"
    by (simp add: insert_before_fault update_fault_example)
  from a b show ?thesis by simp
qed

section \<open>Presence is tested by truthiness\<close>

text \<open>
  C10. \<open>POST /api/clasificacion/registrar\<close> answers 400 with the message of missing
  parameters, and does nothing else, when \<open>usuario_id\<close> or \<open>residuo_id\<close> is the number
  0 or is absent, and when \<open>fue_acierto\<close> is absent; with both ids truthy and
  \<open>fue_acierto: false\<close> the request passes the test and the \<open>try\<close> block runs.
\<close>

theorem registrar_presence_by_truthiness:
  "(body_usuario_id req = JNum 0 \<or> body_residuo_id req = JNum 0
      \<or> body_usuario_id req = JUndefined \<or> body_residuo_id req = JUndefined
      \<or> body_fue_acierto req = JUndefined
      \<longrightarrow> registrar e req w =
            \<lparr>response = Reply 400 (Body_failure (JStr faltan_parametros)), after = w,
             trace = [Responded (Reply 400 (Body_failure (JStr faltan_parametros)))]\<rparr>)
   \<and> (js_truthy (body_usuario_id req) \<and> js_truthy (body_residuo_id req)
        \<and> body_fue_acierto req = JBool False
      \<longrightarrow> registrar e req w = registrar_try e req w)"
proof (intro conjI impI)
  assume "body_usuario_id req = JNum 0 \<or> body_residuo_id req = JNum 0
      \<or> body_usuario_id req = JUndefined \<or> body_residuo_id req = JUndefined
      \<or> body_fue_acierto req = JUndefined"
  then have "\<not> js_truthy (body_usuario_id req) \<or> \<not> js_truthy (body_residuo_id req)
      \<or> body_fue_acierto req = JUndefined"
    by auto
  then show "registrar e req w =
            \<lparr>response = Reply 400 (Body_failure (JStr faltan_parametros)), after = w,
             trace = [Responded (Reply 400 (Body_failure (JStr faltan_parametros)))]\<rparr>"
    unfolding registrar_def by (simp add: Let_def)
next
  assume "js_truthy (body_usuario_id req) \<and> js_truthy (body_residuo_id req)
        \<and> body_fue_acierto req = JBool False"
  then show "registrar e req w = registrar_try e req w"
    by (simp add: registrar_def)
qed

theorem registrar_presence_by_truthiness_witness:
  "registrar env_ok (req7\<lparr>body_usuario_id := JNum 0\<rparr>) world0 =
      \<lparr>response = Reply 400 (Body_failure (JStr faltan_parametros)), after = world0,
       trace = [Responded (Reply 400 (Body_failure (JStr faltan_parametros)))]\<rparr>
   \<and> registrar env_ok (req7\<lparr>body_usuario_id := JNum 7, body_residuo_id := JNum 0\<rparr>) world0 =
      \<lparr>response = Reply 400 (Body_failure (JStr faltan_parametros)), after = world0,
       trace = [Responded (Reply 400 (Body_failure (JStr faltan_parametros)))]\<rparr>
   \<and> registrar env_ok (req7\<lparr>body_usuario_id := JNum 7, body_fue_acierto := JBool False\<rparr>) world0 =
      registrar_try env_ok (req7\<lparr>body_usuario_id := JNum 7, body_fue_acierto := JBool False\<rparr>) world0
   \<and> response (registrar_try env_ok (req7\<lparr>body_usuario_id := JNum 7, body_fue_acierto := JBool False\<rparr>) world0)
       = Reply 200 (Body_registrada (JStr ''ok'') (JNum 0) (JNum 0) (JNum 1))"
proof -
  from registrar_presence_by_truthiness [of "req7\<lparr>body_usuario_id := JNum 0\<rparr>" env_ok world0]
  have a: "registrar env_ok (req7\<lparr>body_usuario_id := JNum 0\<rparr>) world0 =
      \<lparr>response = Reply 400 (Body_failure (JStr faltan_parametros)), after = world0,
       trace = [Responded (Reply 400 (Body_failure (JStr faltan_parametros)))]\<rparr>"
    by simp
  from registrar_presence_by_truthiness
    [of "req7\<lparr>body_usuario_id := JNum 7, body_residuo_id := JNum 0\<rparr>" env_ok world0]
  have b: "registrar env_ok (req7\<lparr>body_usuario_id := JNum 7, body_residuo_id := JNum 0\<rparr>) world0 =
      \<lparr>response = Reply 400 (Body_failure (JStr faltan_parametros)), after = world0,
       trace = [Responded (Reply 400 (Body_failure (JStr faltan_parametros)))]\<rparr>"
    by simp
  from registrar_presence_by_truthiness
    [of "req7\<lparr>body_usuario_id := JNum 7, body_fue_acierto := JBool False\<rparr>" env_ok world0]
  have c: "registrar env_ok (req7\<lparr>body_usuario_id := JNum 7, body_fue_acierto := JBool False\<rparr>) world0 =
      registrar_try env_ok (req7\<lparr>body_usuario_id := JNum 7, body_fue_acierto := JBool False\<rparr>) world0"
    by simp
  have d: "response (registrar_try env_ok (req7\<lparr>body_usuario_id := JNum 7, body_fue_acierto := JBool False\<rparr>) world0)
       = Reply 200 (Body_registrada (JStr ''ok'') (JNum 0) (JNum 0) (JNum 1))"
    by (simp add: registrar_try_def sp_ok_def Let_def)
  from a b c d show ?thesis by simp
qed

section \<open>Two callers, one user\<close>

lemma paso_paso_is_progreso:
  "(case paso v e req At_insert (pg w) of (p, s) \<Rightarrow> paso v e req p s)
     = (Answered (response (progreso v e req w)), pg (after (progreso v e req w)))"
  by (simp add: progreso_def Let_def split: sum.splits)

lemma schedules:
  "ts \<in> shuffles [Caller_a, Caller_a] [Caller_b, Caller_b] \<longleftrightarrow>
     ts = [Caller_a, Caller_a, Caller_b, Caller_b] \<or> ts = [Caller_a, Caller_b, Caller_a, Caller_b]
     \<or> ts = [Caller_a, Caller_b, Caller_b, Caller_a] \<or> ts = [Caller_b, Caller_a, Caller_a, Caller_b]
     \<or> ts = [Caller_b, Caller_a, Caller_b, Caller_a] \<or> ts = [Caller_b, Caller_b, Caller_a, Caller_a]"
  by (auto simp: shuffles.simps)

lemma insert_historial_effect:
  assumes "insert_historial e st ident rid ac = Inr s1" and "int4in e ident = Some u"
  shows "usuarios s1 = usuarios st \<and> usuarios st u \<noteq> None
         \<and> intentos_de u s1 = Suc (intentos_de u st)"
  using insert_historial_Inr [OF assms(1)] assms(2) by (auto simp: intentos_de_def)

lemma update_usuarios_effect:
  assumes "update_usuarios e st p c ident = Inr s2" and "int4in e ident = Some u"
    and "pg_int4 e p = Inr p'" and "pg_float e c = Inr c'"
  shows "intentos_de u s2 = intentos_de u st
         \<and> (case usuarios st u of
              None \<Rightarrow> usuarios s2 = usuarios st
            | Some row \<Rightarrow> usuarios s2 = (usuarios st)(u \<mapsto> row\<lparr>puntos := p', co2_evitado := c'\<rparr>))"
  using update_usuarios_Inr [OF assms(1)] assms(2-) update_usuarios_keeps [OF assms(1)]
  by (auto simp: intentos_de_def split: option.splits)

text \<open>
  C7, amended. Two calls of the progress route for the same user, their four statements
  interleaved in any of the six ways that keep each call's insert before its update,
  and both answered \<open>{success: true}\<close>: the user has two more attempts, one of each
  call, and the aggregate is what the call whose update ran last supplied; the values
  of the other call are gone, and nothing is added up.
\<close>

theorem concurrent_last_update_wins:
  assumes "ts \<in> shuffles [Caller_a, Caller_a] [Caller_b, Caller_b]"
    and "int4in e (params_id ra) = Some u" and "int4in e (params_id rb) = Some u"
    and "pg_int4 e (body_puntos ra) = Inr pa" and "pg_float e (body_co2_evitado ra) = Inr ca"
    and "pg_int4 e (body_puntos rb) = Inr pb" and "pg_float e (body_co2_evitado rb) = Inr cb"
    and "concurrent v e ra rb ts (At_insert, At_insert, st)
           = (Answered (Reply 200 Body_success), Answered (Reply 200 Body_success), st')"
  shows "intentos_de u st' = intentos_de u st + 2
         \<and> (\<exists>row. usuarios st u = Some row
               \<and> usuarios st' u =
                   Some (if last ts = Caller_a then row\<lparr>puntos := pa, co2_evitado := ca\<rparr>
                         else row\<lparr>puntos := pb, co2_evitado := cb\<rparr>))"
proof -
  note ia = insert_historial_effect
    [where e = e and u = u and ident = "params_id ra", OF _ assms(2)]
  note ib = insert_historial_effect
    [where e = e and u = u and ident = "params_id rb", OF _ assms(3)]
  note ua = update_usuarios_effect
    [where e = e and u = u and ident = "params_id ra", OF _ assms(2) assms(4) assms(5)]
  note ub = update_usuarios_effect
    [where e = e and u = u and ident = "params_id rb", OF _ assms(3) assms(6) assms(7)]
  from assms(1) consider
      "ts = [Caller_a, Caller_a, Caller_b, Caller_b]" | "ts = [Caller_a, Caller_b, Caller_a, Caller_b]"
    | "ts = [Caller_a, Caller_b, Caller_b, Caller_a]" | "ts = [Caller_b, Caller_a, Caller_a, Caller_b]"
    | "ts = [Caller_b, Caller_a, Caller_b, Caller_a]" | "ts = [Caller_b, Caller_b, Caller_a, Caller_a]"
    unfolding schedules by blast
  then show ?thesis
  proof cases
    case 1
    with assms(8) show ?thesis
      by (auto split: sum.splits dest!: ia ib ua ub)
  next
    case 2
    with assms(8) show ?thesis
      by (auto split: sum.splits dest!: ia ib ua ub)
  next
    case 3
    with assms(8) show ?thesis
      by (auto split: sum.splits dest!: ia ib ua ub)
  next
    case 4
    with assms(8) show ?thesis
      by (auto split: sum.splits dest!: ia ib ua ub)
  next
    case 5
    with assms(8) show ?thesis
      by (auto split: sum.splits dest!: ia ib ua ub)
  next
    case 6
    with assms(8) show ?thesis
      by (auto split: sum.splits dest!: ia ib ua ub)
  qed
qed

lemma req7b_sel [simp]:
  "params_id req7b = ''7''"
  "body_puntos req7b = JNum 5"
  "body_co2_evitado req7b = JNum (1 / 4)"
  "body_residuo_id req7b = JNum 3"
  "body_fue_acierto req7b = JBool True"
  by (simp_all add: req7b_def)

lemma concurrent_example:
  "concurrent Server_index env_ok req7 req7b [Caller_a, Caller_b, Caller_a, Caller_b]
      (At_insert, At_insert, pg world0)
     = (Answered (Reply 200 Body_success), Answered (Reply 200 Body_success),
        \<lparr>usuarios = [1 \<mapsto> luis, 7 \<mapsto> ana\<lparr>puntos := Some 5, co2_evitado := Some (1 / 4)\<rparr>],
         residuos = {3},
         historial = [\<lparr>usuario_id = 7, residuo_id = Some 3, acierto = Some True, fecha = 0\<rparr>,
                      \<lparr>usuario_id = 7, residuo_id = Some 3, acierto = Some True, fecha = 0\<rparr>]\<rparr>)"
  by (simp add: insert_historial_def update_usuarios_def world0_def)

theorem concurrent_last_update_wins_witness:
  "intentos_de 7 (snd (snd (concurrent Server_index env_ok req7 req7b
        [Caller_a, Caller_b, Caller_a, Caller_b] (At_insert, At_insert, pg world0))))
      = intentos_de 7 (pg world0) + 2
   \<and> usuarios (snd (snd (concurrent Server_index env_ok req7 req7b
        [Caller_a, Caller_b, Caller_a, Caller_b] (At_insert, At_insert, pg world0)))) 7
      = Some (ana\<lparr>puntos := Some 5, co2_evitado := Some (1 / 4)\<rparr>)"
proof -
  have sched: "[Caller_a, Caller_b, Caller_a, Caller_b] \<in> shuffles [Caller_a, Caller_a] [Caller_b, Caller_b]"
    by (simp add: schedules)
  from concurrent_last_update_wins [OF sched, where e = env_ok and ra = req7 and rb = req7b
      and u = 7 and pa = "Some 10" and ca = "Some (1 / 2)" and pb = "Some 5" and cb = "Some (1 / 4)"
      and v = Server_index and st = "pg world0", OF _ _ _ _ _ _ concurrent_example]
  show ?thesis unfolding concurrent_example by simp
qed

text \<open>
  C7 as the spec states it fails. User 7 has 20 points; one caller submits 10 and 0.5,
  the other 5 and 0.25. Interleaved statement by statement, both are answered
  \<open>{success: true}\<close> and two attempts are recorded, but user 7 is left with 5 points
  and 0.25, not with the sum; the same holds when the second call of the route only
  starts after the first has been answered.
\<close>

theorem concurrent_sum_counterexample:
  "map_option puntos (usuarios (pg world0) 7) = Some (Some 20)
   \<and> fst (concurrent Server_index env_ok req7 req7b [Caller_a, Caller_b, Caller_a, Caller_b]
        (At_insert, At_insert, pg world0)) = Answered (Reply 200 Body_success)
   \<and> fst (snd (concurrent Server_index env_ok req7 req7b [Caller_a, Caller_b, Caller_a, Caller_b]
        (At_insert, At_insert, pg world0))) = Answered (Reply 200 Body_success)
   \<and> map_option puntos (usuarios (snd (snd (concurrent Server_index env_ok req7 req7b
        [Caller_a, Caller_b, Caller_a, Caller_b] (At_insert, At_insert, pg world0)))) 7)
      = Some (Some 5)
   \<and> map_option puntos (usuarios (snd (snd (concurrent Server_index env_ok req7 req7b
        [Caller_a, Caller_b, Caller_a, Caller_b] (At_insert, At_insert, pg world0)))) 7)
      \<noteq> Some (Some (20 + 10 + 5))
   \<and> response (put_progreso Server_index env_ok req7b
        (after (put_progreso Server_index env_ok req7 world0))) = Reply 200 Body_success
   \<and> map_option puntos (usuarios (pg (after (put_progreso Server_index env_ok req7b
        (after (put_progreso Server_index env_ok req7 world0))))) 7)
      = Some (Some 5)"
proof -
  have "put_progreso Server_index env_ok req7 world0 = progreso Server_index env_ok req7 world0"
    by (simp add: put_progreso_def)
  moreover have "put_progreso Server_index env_ok req7b w = progreso Server_index env_ok req7b w" for w
    by (simp add: put_progreso_def)
  ultimately show ?thesis
    unfolding concurrent_example
    by (simp add: progreso_example progreso_def insert_historial_def
          update_usuarios_def settle_mirror_def Let_def)
qed

end
